theory Spec2Isabelle
  imports
    Main
    "HOL-Library.Char_ord"
    "HOL-Library.List_Lexorder"
    "HOL-Library.Multiset"
    "HOL-Library.Sublist"
begin

section \<open>Cluster resource quota admission (package clusterresourcequota): the model\<close>

text \<open>
  Go strings are byte sequences compared lexicographically byte by byte; \<open>string\<close> with
  the orders of \<open>Char_ord\<close> and \<open>List_Lexorder\<close> is the same order.
\<close>

subsection \<open>Data\<close>

text \<open>\<open>corev1.ResourceQuota\<close>: the fields the admission plugin reads.\<close>

record ResourceQuota =
  quotaName :: string
  quotaNamespace :: string
  quotaHard :: "(string \<times> int) list"
  quotaUsed :: "(string \<times> int) list"

text \<open>
  A \<open>sync.Locker\<close> handed out by \<open>lockFactory.GetLock\<close>. The factory keeps one lock per
  identifier, so a lock is identified by the name it was asked for.
\<close>

datatype Locker = Locker (lockName: string)

definition GetLock :: "string \<Rightarrow> Locker" where
  "GetLock name = Locker name"

text \<open>The calls made on locks, in program order.\<close>

datatype lock_event = Lock Locker | Unlock Locker

subsection \<open>\<open>ByName\<close> and \<open>sort.Sort\<close>\<close>

definition ByName_Less :: "ResourceQuota \<Rightarrow> ResourceQuota \<Rightarrow> bool" where
  "ByName_Less a b = (quotaName a < quotaName b)"

text \<open>
  \<open>sort.Sort(ByName(quotas))\<close> belongs to the Go standard library; it orders the slice
  with \<open>Less\<close> and gives no promise on the relative order of equal elements. The
  model is an insertion sort driven by \<open>ByName_Less\<close>. Locks are keyed by name alone,
  so the sequence of locks does not depend on which sorting algorithm runs (see
  \<open>sorted_names_unique\<close> below).
\<close>

fun insert_ByName :: "ResourceQuota \<Rightarrow> ResourceQuota list \<Rightarrow> ResourceQuota list" where
  "insert_ByName q [] = [q]"
| "insert_ByName q (x # xs) =
     (if ByName_Less q x then q # x # xs else x # insert_ByName q xs)"

definition sort_Sort_ByName :: "ResourceQuota list \<Rightarrow> ResourceQuota list" where
  "sort_Sort_ByName quotas = foldr insert_ByName quotas []"

subsection \<open>\<open>lockAquisition\<close>\<close>

text \<open>
  The \<open>for _, quota := range quotas\<close> loop: get the lock, lock it, append it to
  \<open>locks\<close>. The second accumulator is the log of lock calls.
\<close>

fun acquire_loop ::
  "ResourceQuota list \<Rightarrow> Locker list \<Rightarrow> lock_event list \<Rightarrow> Locker list \<times> lock_event list" where
  "acquire_loop [] locks log = (locks, log)"
| "acquire_loop (quota # rest) locks log =
     (let lock = GetLock (quotaName quota)
      in acquire_loop rest (locks @ [lock]) (log @ [Lock lock]))"

text \<open>
  The returned closure: \<open>for i := len(locks) - 1; i >= 0; i-- { locks[i].Unlock() }\<close>.
  The counter of the model is \<open>i + 1\<close>.
\<close>

fun release_loop :: "Locker list \<Rightarrow> nat \<Rightarrow> lock_event list \<Rightarrow> lock_event list" where
  "release_loop locks 0 log = log"
| "release_loop locks (Suc i) log = release_loop locks i (log @ [Unlock (locks ! i)])"

text \<open>
  \<open>lockAquisition\<close> returns the release function and leaves the lock calls it made in
  the log. Whether a \<open>Lock\<close> call has to wait for another goroutine is a matter of
  scheduling and is not part of this sequential model.
\<close>

definition lockAquisition ::
  "ResourceQuota list \<Rightarrow> lock_event list \<Rightarrow> (lock_event list \<Rightarrow> lock_event list) \<times> lock_event list" where
  "lockAquisition quotas log =
     (let (locks, log') = acquire_loop (sort_Sort_ByName quotas) [] log
      in (\<lambda>l. release_loop locks (length locks) l, log'))"

text \<open>
  A mutex table, to replay a log on the locks no other goroutine holds: a \<open>Lock\<close> call on
  a held lock never returns and an \<open>Unlock\<close> call on a lock that is not held is a fatal
  error; both are \<open>None\<close>.
\<close>

fun replay :: "lock_event list \<Rightarrow> Locker list \<Rightarrow> Locker list option" where
  "replay [] held = Some held"
| "replay (Lock l # es) held = (if l \<in> set held then None else replay es (l # held))"
| "replay (Unlock l # es) held = (if l \<in> set held then replay es (removeAll l held) else None)"

subsection \<open>Fixtures for \<open>lockAquisition\<close>\<close>

definition quota_beta :: ResourceQuota where
  "quota_beta = \<lparr>quotaName = ''beta'', quotaNamespace = '''', quotaHard = [], quotaUsed = []\<rparr>"

definition quota_alpha :: ResourceQuota where
  "quota_alpha = \<lparr>quotaName = ''alpha'', quotaNamespace = '''', quotaHard = [], quotaUsed = []\<rparr>"

definition quota_alpine :: ResourceQuota where
  "quota_alpine = \<lparr>quotaName = ''alpine'', quotaNamespace = '''', quotaHard = [], quotaUsed = []\<rparr>"

subsection \<open>\<open>Validate\<close> and \<open>waitForSyncedStore\<close>\<close>

text \<open>
  \<open>admission.Attributes\<close>: the operation an admission plugin is asked about. The
  object type is a parameter. \<open>admission.Operation\<close> is a string type.
\<close>

record GroupResource =
  grGroup :: string
  grResource :: string

record 'obj Attributes =
  attrOperation :: string
  attrSubresource :: string
  attrNamespace :: string
  attrName :: string
  attrResource :: GroupResource
  attrKind :: string
  attrObject :: 'obj
  attrOldObject :: "'obj option"

definition Create :: string where "Create = ''CREATE''"

definition Update :: string where "Update = ''UPDATE''"

definition Delete :: string where "Delete = ''DELETE''"

definition Connect :: string where "Connect = ''CONNECT''"

text \<open>
  Durations and clock readings are counted in nanoseconds, as \<open>time.Duration\<close> is.
\<close>

definition Millisecond :: nat where "Millisecond = 1000000"

definition Second :: nat where "Second = 1000 * Millisecond"

definition timeToWaitForCacheSync :: nat where "timeToWaitForCacheSync = 10 * Second"

definition numEvaluatorThreads :: nat where "numEvaluatorThreads = 10"

text \<open>
  The errors \<open>Validate\<close> returns: \<open>admission.NewForbidden(a, err)\<close> with the message of
  \<open>err\<close>, or whatever the evaluator answers.
\<close>

datatype quota_error = Forbidden string | EvaluatorError string

text \<open>
  What the plugin observes of its surroundings. The two \<open>HasSynced\<close> functions of the
  informers answer according to the moment they are asked, so they are predicates on
  the clock reading. When the poll timer and the timeout channel become ready at the
  same instant, Go's \<open>select\<close> picks either; \<open>selectTimeout\<close> says whether the timeout
  case is the one taken at that instant.
\<close>

record quota_env =
  clusterQuotaSynced :: "nat \<Rightarrow> bool"
  namespaceSynced :: "nat \<Rightarrow> bool"
  selectTimeout :: "nat \<Rightarrow> bool"

text \<open>
  The state a call of \<open>Validate\<close> can change: the clock (time passes only while the
  goroutine waits in \<open>select\<close>), the number of times the informers were asked whether
  they are synced, whether \<open>q.init\<close> has run and built \<open>q.evaluator\<close>, the log of lock
  calls, and the operations handed to the evaluator.
\<close>

record 'obj quota_state =
  clock :: nat
  syncPolls :: nat
  evaluatorBuilt :: bool
  lockLog :: "lock_event list"
  evaluated :: "'obj Attributes list"

text \<open>
  \<open>waitForSyncedStore(timeout)\<close>, where \<open>timeout\<close> is the instant at which the timeout
  channel becomes ready and \<open>t\<close> the present clock reading; \<open>n\<close> counts the evaluations
  of the loop condition. It answers with the boolean, the clock reading on return and
  the count.

  \<^verbatim>\<open>for !q.clusterQuotaSynced() || !q.namespaceSynced() {
      select {
      case <-time.After(100 * time.Millisecond):
      case <-timeout:
          return q.clusterQuotaSynced() && q.namespaceSynced()
      }
  }
  return true\<close>
\<close>

function waitForSyncedStore :: "quota_env \<Rightarrow> nat \<Rightarrow> nat \<Rightarrow> nat \<Rightarrow> bool \<times> nat \<times> nat" where
  "waitForSyncedStore q timeout t n =
     (if \<not> clusterQuotaSynced q t \<or> \<not> namespaceSynced q t then
        (if timeout < t + 100 * Millisecond
            \<or> (timeout = t + 100 * Millisecond \<and> selectTimeout q timeout)
         then (clusterQuotaSynced q (max t timeout) \<and> namespaceSynced q (max t timeout),
               max t timeout, Suc (Suc n))
         else waitForSyncedStore q timeout (t + 100 * Millisecond) (Suc n))
      else (True, t, Suc n))"
  by pat_completeness auto

termination
  by (relation "measure (\<lambda>(q, timeout, t, n). Suc timeout - t)")
     (auto simp: Millisecond_def)

declare waitForSyncedStore.simps [simp del]

text \<open>
  The evaluator of \<open>k8s.io/kubernetes/plugin/pkg/admission/resourcequota\<close> is a library
  outside this repository: it is a parameter, a state transformer that is given the
  lock function it was built with. \<open>Validate\<close> builds the evaluator once
  (\<open>q.init.Do\<close>) and hands the operation to it.
\<close>

type_synonym 'obj evaluator =
  "(ResourceQuota list \<Rightarrow> lock_event list \<Rightarrow> (lock_event list \<Rightarrow> lock_event list) \<times> lock_event list)
     \<Rightarrow> 'obj Attributes \<Rightarrow> 'obj quota_state \<Rightarrow> quota_error option \<times> 'obj quota_state"

definition Validate ::
  "quota_env \<Rightarrow> 'obj evaluator \<Rightarrow> 'obj Attributes \<Rightarrow> 'obj quota_state
     \<Rightarrow> quota_error option \<times> 'obj quota_state" where
  "Validate q Evaluate a s =
     (if length (attrSubresource a) \<noteq> 0 then (None, s)
      else if length (attrNamespace a) = 0 then (None, s)
      else
        (case waitForSyncedStore q (clock s + timeToWaitForCacheSync) (clock s) 0 of
           (synced, t, n) \<Rightarrow>
             let s1 = s\<lparr>clock := t, syncPolls := syncPolls s + n\<rparr> in
             if \<not> synced then (Some (Forbidden ''caches not synchronized''), s1)
             else Evaluate lockAquisition a
                    (s1\<lparr>evaluatorBuilt := True, evaluated := evaluated s1 @ [a]\<rparr>)))"

subsection \<open>Notions and fixtures for \<open>Validate\<close>\<close>

text \<open>The \<open>k\<close>-th poll instant of a call of \<open>Validate\<close> that starts in state \<open>s\<close>.\<close>

definition pollInstant :: "'obj quota_state \<Rightarrow> nat \<Rightarrow> nat" where
  "pollInstant s k = clock s + k * (100 * Millisecond)"

definition bothSynced :: "quota_env \<Rightarrow> nat \<Rightarrow> bool" where
  "bothSynced q t = (clusterQuotaSynced q t \<and> namespaceSynced q t)"

text \<open>
  Fixtures: an operation on a pod in namespace \<open>ns1\<close>; informers that never, always,
  and from 300 ms on report synced; an evaluator that denies.
\<close>

definition attrs_pod :: "unit Attributes" where
  "attrs_pod = \<lparr>attrOperation = Create, attrSubresource = '''', attrNamespace = ''ns1'',
     attrName = ''pod1'', attrResource = \<lparr>grGroup = '''', grResource = ''pods''\<rparr>,
     attrKind = ''Pod'', attrObject = (), attrOldObject = None\<rparr>"

definition state0 :: "unit quota_state" where
  "state0 = \<lparr>clock = 0, syncPolls = 0, evaluatorBuilt = False, lockLog = [], evaluated = []\<rparr>"

definition env_never_synced :: quota_env where
  "env_never_synced = \<lparr>clusterQuotaSynced = (\<lambda>t. False), namespaceSynced = (\<lambda>t. True),
     selectTimeout = (\<lambda>t. True)\<rparr>"

definition env_synced :: quota_env where
  "env_synced = \<lparr>clusterQuotaSynced = (\<lambda>t. True), namespaceSynced = (\<lambda>t. True),
     selectTimeout = (\<lambda>t. True)\<rparr>"

definition env_synced_late :: quota_env where
  "env_synced_late = \<lparr>clusterQuotaSynced = (\<lambda>t. True),
     namespaceSynced = (\<lambda>t. 300 * Millisecond \<le> t), selectTimeout = (\<lambda>t. False)\<rparr>"

definition evaluator_deny :: "unit evaluator" where
  "evaluator_deny lockFn a s = (Some (EvaluatorError ''exceeded quota''), s)"

section \<open>Image policy admission (package imagepolicy): the model\<close>

subsection \<open>Data\<close>

text \<open>\<open>imageapi.DockerImageReference\<close>: the parts of an image pull spec.\<close>

record DockerImageReference =
  refRegistry :: string
  refNamespace :: string
  refName :: string
  refTag :: string
  refID :: string

definition emptyReference :: DockerImageReference where
  "emptyReference = \<lparr>refRegistry = '''', refNamespace = '''', refName = '''', refTag = '''',
     refID = ''''\<rparr>"

text \<open>\<open>imagev1.Image\<close>: the fields the resolver and the policy rules read.\<close>

record Image =
  imageName :: string
  imageAnnotations :: "(string \<times> string) list"
  imageDockerImageReference :: string

record ImageStreamTag =
  tagLookupPolicyLocal :: bool
  tagImage :: Image

record ImageStream =
  streamLookupPolicyLocal :: bool
  streamDockerImageRepository :: string

text \<open>
  \<open>rules.ImagePolicyAttributes\<close>, with the fields this package sets. A field that a
  composite literal of the source leaves out has its zero value.
\<close>

record ImagePolicyAttributes =
  ipaName :: DockerImageReference
  ipaImage :: "Image option"
  ipaIntegratedRegistry :: bool
  ipaLocalRewrite :: bool

text \<open>
  Go errors. An error of the API machinery carries a status (its reason and, maybe,
  details); any other error is its message.
\<close>

record StatusDetails =
  detailsKind :: string
  detailsGroup :: string

datatype error =
  StatusError (statusReason: string) (statusDetails: "StatusDetails option") (statusMessage: string)
| PlainError string

fun Error :: "error \<Rightarrow> string" where
  "Error (StatusError reason details message) = message"
| "Error (PlainError message) = message"

definition IsNotFound :: "error \<Rightarrow> bool" where
  "IsNotFound err = (case err of StatusError reason details message \<Rightarrow> reason = ''NotFound''
                     | PlainError message \<Rightarrow> False)"

text \<open>\<open>isImageStreamTagNotFound\<close>: the tag is missing but the image stream exists.\<close>

definition isImageStreamTagNotFound :: "error option \<Rightarrow> bool" where
  "isImageStreamTagNotFound e =
     (case e of
        None \<Rightarrow> False
      | Some err \<Rightarrow>
          if \<not> IsNotFound err then False
          else (case err of
                  PlainError message \<Rightarrow> False
                | StatusError reason details message \<Rightarrow>
                    (case details of
                       None \<Rightarrow> False
                     | Some d \<Rightarrow> detailsKind d = ''imagestreamtags''
                                 \<and> detailsGroup d = ''image.openshift.io'')))"

subsection \<open>Collaborators\<close>

text \<open>
  The image client (\<open>imagev1typedclient.ImageV1Interface\<close>): the requests the resolver
  sends to the authoritative store, each answered with an object or an error.
\<close>

record imageClient =
  Images_Get :: "string \<Rightarrow> error + Image"
  ImageStreamTags_Get :: "string \<Rightarrow> string \<Rightarrow> error + ImageStreamTag"
  ImageStreams_Get :: "string \<Rightarrow> string \<Rightarrow> error + ImageStream"

datatype client_request =
  GetImage string
| GetImageStreamTag string string
| GetImageStream string string

text \<open>
  Functions of \<open>library-go\<close> the resolver calls: \<open>reference.Parse\<close> and
  \<open>DockerImageReference.Exact\<close>. They are parameters of the model.
\<close>

record library =
  reference_Parse :: "string \<Rightarrow> error + DockerImageReference"
  reference_Exact :: "DockerImageReference \<Rightarrow> string"

definition DefaultImageTag :: string where
  "DefaultImageTag = ''latest''"

text \<open>\<open>imageutil.JoinImageStreamTag\<close>: \<open>name:tag\<close>, with the default tag for an empty one.\<close>

definition JoinImageStreamTag :: "string \<Rightarrow> string \<Rightarrow> string" where
  "JoinImageStreamTag name tag =
     (let tag = (if length tag = 0 then DefaultImageTag else tag) in name @ '':'' @ tag)"

subsection \<open>The LRU cache\<close>

text \<open>
  \<open>lru.Cache\<close> of \<open>hashicorp/golang-lru\<close>, by its contract: a bounded list of entries,
  the most recently used first. \<open>Get\<close> moves the entry it finds to the front; \<open>Add\<close>
  replaces the entry of a key it finds and moves it to the front, else puts the new
  entry at the front and drops the oldest entry when the size is exceeded.
\<close>

record 'v lru_Cache =
  lruSize :: nat
  lruItems :: "(string \<times> 'v) list"

definition lru_New :: "nat \<Rightarrow> error + 'v lru_Cache" where
  "lru_New n =
     (if n = 0 then Inl (PlainError ''Must provide a positive size'')
      else Inr \<lparr>lruSize = n, lruItems = []\<rparr>)"

definition lru_Get :: "string \<Rightarrow> 'v lru_Cache \<Rightarrow> 'v option \<times> 'v lru_Cache" where
  "lru_Get key c =
     (case map_of (lruItems c) key of
        None \<Rightarrow> (None, c)
      | Some v \<Rightarrow> (Some v, c\<lparr>lruItems := (key, v) # filter (\<lambda>kv. fst kv \<noteq> key) (lruItems c)\<rparr>))"

definition lru_Add :: "string \<Rightarrow> 'v \<Rightarrow> 'v lru_Cache \<Rightarrow> 'v lru_Cache" where
  "lru_Add key v c =
     (case map_of (lruItems c) key of
        Some old \<Rightarrow> c\<lparr>lruItems := (key, v) # filter (\<lambda>kv. fst kv \<noteq> key) (lruItems c)\<rparr>
      | None \<Rightarrow>
          (let items = (key, v) # lruItems c
           in c\<lparr>lruItems := (if length items > lruSize c then butlast items else items)\<rparr>))"

subsection \<open>The resolver\<close>

text \<open>Instants and durations are counted in nanoseconds.\<close>

definition time_Minute :: int where
  "time_Minute = 60 * 1000000000"

record imageCacheEntry =
  entryExpires :: int
  entryImage :: Image

text \<open>
  \<open>imageResolutionCache\<close>. The field \<open>requests\<close> is not a field of the Go struct: it is
  the log of the requests sent through \<open>imageClient\<close>, in order.
\<close>

record imageResolutionCache =
  imageClient :: imageClient
  integrated :: "string \<Rightarrow> bool"
  expiration :: int
  cache :: "imageCacheEntry lru_Cache"
  requests :: "client_request list"

definition newImageResolutionCache ::
  "imageClient \<Rightarrow> (string \<Rightarrow> bool) \<Rightarrow> error + imageResolutionCache" where
  "newImageResolutionCache client integratedRegistry =
     (case lru_New 128 of
        Inl err \<Rightarrow> Inl err
      | Inr imageCache \<Rightarrow>
          Inr \<lparr>imageClient = client, integrated = integratedRegistry,
               expiration = time_Minute, cache = imageCache, requests = []\<rparr>)"

text \<open>
  A result of the resolver is the pair Go returns: the attributes (or \<open>nil\<close>) and the
  error (or \<open>nil\<close>); the resolver as the call leaves it comes with it.
\<close>

type_synonym resolution = "(ImagePolicyAttributes option \<times> error option) \<times> imageResolutionCache"

definition request :: "client_request \<Rightarrow> imageResolutionCache \<Rightarrow> imageResolutionCache" where
  "request r c = c\<lparr>requests := requests c @ [r]\<rparr>"

text \<open>\<open>resolveImageStreamTag\<close>; \<open>now\<close> is what \<open>now()\<close> answers during the call.\<close>

definition resolveImageStreamTag ::
  "library \<Rightarrow> imageResolutionCache \<Rightarrow> string \<Rightarrow> string \<Rightarrow> string \<Rightarrow> bool \<Rightarrow> bool \<Rightarrow> int
     \<Rightarrow> resolution" where
  "resolveImageStreamTag lib c namespace name tag partial forceResolveLocalNames now =
     (let attrs = \<lparr>ipaName = emptyReference, ipaImage = None, ipaIntegratedRegistry = True,
                    ipaLocalRewrite = False\<rparr>;
          c1 = request (GetImageStreamTag namespace (JoinImageStreamTag name tag)) c
      in case ImageStreamTags_Get (imageClient c) namespace (JoinImageStreamTag name tag) of
           Inl err \<Rightarrow>
             (let attrs = (if partial then attrs\<lparr>ipaIntegratedRegistry := False\<rparr> else attrs)
              in if isImageStreamTagNotFound (Some err) then
                   (let c2 = request (GetImageStream namespace name) c1
                    in case ImageStreams_Get (imageClient c) namespace name of
                         Inl err' \<Rightarrow> ((Some attrs, Some err), c2)
                       | Inr stream \<Rightarrow>
                           if (forceResolveLocalNames \<or> streamLookupPolicyLocal stream)
                              \<and> length (streamDockerImageRepository stream) > 0
                           then (case reference_Parse lib (streamDockerImageRepository stream) of
                                   Inr ref \<Rightarrow>
                                     ((Some (attrs\<lparr>ipaName := ref\<lparr>refTag := tag\<rparr>,
                                                   ipaLocalRewrite := True\<rparr>), None), c2)
                                 | Inl err' \<Rightarrow> ((Some attrs, Some err), c2))
                           else ((Some attrs, Some err), c2))
                 else ((Some attrs, Some err), c1))
         | Inr resolved \<Rightarrow>
             if partial \<and> \<not> forceResolveLocalNames \<and> \<not> tagLookupPolicyLocal resolved
             then ((Some (attrs\<lparr>ipaIntegratedRegistry := False\<rparr>),
                    Some (PlainError ''ImageStreamTag does not allow local references and the resource did not request image stream resolution'')),
                   c1)
             else
               (let attrs = (if partial then attrs\<lparr>ipaLocalRewrite := True\<rparr> else attrs)
                in case reference_Parse lib (imageDockerImageReference (tagImage resolved)) of
                     Inl err \<Rightarrow>
                       ((Some attrs,
                         Some (PlainError (''image reference ''
                               @ imageDockerImageReference (tagImage resolved)
                               @ '' could not be parsed: '' @ Error err))),
                        c1)
                   | Inr ref \<Rightarrow>
                       (let ref = ref\<lparr>refTag := '''', refID := imageName (tagImage resolved)\<rparr>;
                            c2 = c1\<lparr>cache := lru_Add (imageName (tagImage resolved))
                                    \<lparr>entryExpires = now + expiration c, entryImage = tagImage resolved\<rparr>
                                    (cache c1)\<rparr>
                        in ((Some (attrs\<lparr>ipaName := ref, ipaImage := Some (tagImage resolved)\<rparr>),
                             None), c2))))"

text \<open>\<open>resolveImageReference\<close>.\<close>

definition resolveImageReference ::
  "library \<Rightarrow> imageResolutionCache \<Rightarrow> DockerImageReference \<Rightarrow> string \<Rightarrow> bool \<Rightarrow> int
     \<Rightarrow> resolution" where
  "resolveImageReference lib c ref defaultNamespace forceResolveLocalNames now =
     (if length (refID ref) > 0 then
        (case lru_Get (refID ref) (cache c) of
           (found, cache1) \<Rightarrow>
             let c1 = c\<lparr>cache := cache1\<rparr>;
                 hit = (case found of None \<Rightarrow> None
                        | Some cached \<Rightarrow> if now < entryExpires cached then Some cached else None)
             in case hit of
                  Some cached \<Rightarrow>
                    ((Some \<lparr>ipaName = ref, ipaImage = Some (entryImage cached),
                            ipaIntegratedRegistry = False, ipaLocalRewrite = False\<rparr>, None), c1)
                | None \<Rightarrow>
                    (let c2 = request (GetImage (refID ref)) c1
                     in case Images_Get (imageClient c) (refID ref) of
                          Inl err \<Rightarrow> ((None, Some err), c2)
                        | Inr img \<Rightarrow>
                            ((Some \<lparr>ipaName = ref, ipaImage = Some img,
                                    ipaIntegratedRegistry = integrated c (refRegistry ref),
                                    ipaLocalRewrite = False\<rparr>, None),
                             c2\<lparr>cache := lru_Add (refID ref)
                                   \<lparr>entryExpires = now + expiration c, entryImage = img\<rparr> (cache c2)\<rparr>)))
      else
        (let fullReference = integrated c (refRegistry ref);
             partialReference = (forceResolveLocalNames
               \<or> (length (refRegistry ref) = 0 \<and> length (refNamespace ref) = 0
                  \<and> length (refName ref) > 0))
         in if \<not> fullReference \<and> \<not> partialReference then
              ((None, Some (PlainError (''('' @ reference_Exact lib ref
                     @ '') could not be resolved to an exact image reference''))), c)
            else
              (let tag = (if length (refTag ref) = 0 then DefaultImageTag else refTag ref);
                   ref = (if length (refNamespace ref) = 0 \<or> forceResolveLocalNames
                          then ref\<lparr>refNamespace := defaultNamespace\<rparr> else ref)
               in resolveImageStreamTag lib c (refNamespace ref) (refName ref) tag
                    partialReference forceResolveLocalNames now)))"

subsection \<open>Reading the cache\<close>

definition lookup :: "imageResolutionCache \<Rightarrow> string \<Rightarrow> imageCacheEntry option" where
  "lookup c key = map_of (lruItems (cache c)) key"

text \<open>
  What \<open>newImageResolutionCache\<close> fixes and no method changes: the time to live of one
  minute and the capacity of 128 entries.
\<close>

definition configured :: "imageResolutionCache \<Rightarrow> bool" where
  "configured c = (expiration c = time_Minute \<and> lruSize (cache c) = 128)"

subsection \<open>Fixtures for the resolver\<close>

definition image_good :: Image where
  "image_good = \<lparr>imageName = ''sha256:good'', imageAnnotations = [],
     imageDockerImageReference = ''integrated.registry/ns/app@sha256:good''\<rparr>"

definition error_image_not_found :: error where
  "error_image_not_found =
     StatusError ''NotFound''
       (Some \<lparr>detailsKind = ''images'', detailsGroup = ''image.openshift.io''\<rparr>)
       ''image not found''"

definition error_tag_not_found :: error where
  "error_tag_not_found =
     StatusError ''NotFound''
       (Some \<lparr>detailsKind = ''imagestreamtags'', detailsGroup = ''image.openshift.io''\<rparr>)
       ''imagestreamtags.image.openshift.io not found''"

definition error_stream_not_found :: error where
  "error_stream_not_found =
     StatusError ''NotFound''
       (Some \<lparr>detailsKind = ''imagestreams'', detailsGroup = ''image.openshift.io''\<rparr>)
       ''imagestreams.image.openshift.io not found''"

text \<open>
  A store with the image \<open>sha256:good\<close> and, in namespace \<open>ns\<close>, the image streams
  \<open>app\<close> (local lookup on) and \<open>ext\<close> (local lookup off), both with a repository and
  without any tag.
\<close>

definition client_good :: imageClient where
  "client_good =
     \<lparr>Images_Get = (\<lambda>id. if id = ''sha256:good'' then Inr image_good
                         else Inl error_image_not_found),
      ImageStreamTags_Get = (\<lambda>namespace name. Inl error_tag_not_found),
      ImageStreams_Get = (\<lambda>namespace name.
         if namespace = ''ns'' \<and> name = ''app''
         then Inr \<lparr>streamLookupPolicyLocal = True,
                   streamDockerImageRepository = ''integrated.registry/ns/app''\<rparr>
         else if namespace = ''ns'' \<and> name = ''ext''
         then Inr \<lparr>streamLookupPolicyLocal = False,
                   streamDockerImageRepository = ''integrated.registry/ns/ext''\<rparr>
         else Inl error_stream_not_found)\<rparr>"

definition integrated_registry :: "string \<Rightarrow> bool" where
  "integrated_registry name = (name = ''integrated.registry'')"

definition library_fixture :: library where
  "library_fixture =
     \<lparr>reference_Parse = (\<lambda>s.
         if s = ''integrated.registry/ns/app''
         then Inr \<lparr>refRegistry = ''integrated.registry'', refNamespace = ''ns'',
                   refName = ''app'', refTag = '''', refID = ''''\<rparr>
         else if s = ''integrated.registry/ns/ext''
         then Inr \<lparr>refRegistry = ''integrated.registry'', refNamespace = ''ns'',
                   refName = ''ext'', refTag = '''', refID = ''''\<rparr>
         else Inl (PlainError ''invalid reference format'')),
      reference_Exact = (\<lambda>r. refRegistry r @ ''/'' @ refNamespace r @ ''/'' @ refName r)\<rparr>"

definition cache_new :: imageResolutionCache where
  "cache_new = \<lparr>imageClient = client_good, integrated = integrated_registry,
     expiration = time_Minute, cache = \<lparr>lruSize = 128, lruItems = []\<rparr>, requests = []\<rparr>"

definition ref_good :: DockerImageReference where
  "ref_good = \<lparr>refRegistry = ''integrated.registry'', refNamespace = ''ns'', refName = ''app'',
     refTag = '''', refID = ''sha256:good''\<rparr>"

subsection \<open>The resolution policy (\<open>resolutionConfig\<close>)\<close>

text \<open>
  \<open>imagepolicy.ImagePolicyConfig\<close>: the global resolution policy and the resolution
  rules. \<open>ImageResolutionType\<close> is a string type.
\<close>

record ImageResolutionPolicyRule =
  rulePolicy :: string
  ruleTargetResource :: GroupResource
  ruleLocalNames :: bool

record ImagePolicyConfig =
  ResolveImages :: string
  ResolutionRules :: "ImageResolutionPolicyRule list"

definition RequiredRewrite :: string where "RequiredRewrite = ''RequiredRewrite''"

definition Required :: string where "Required = ''Required''"

definition AttemptRewrite :: string where "AttemptRewrite = ''AttemptRewrite''"

definition Attempt :: string where "Attempt = ''Attempt''"

definition DoNotAttempt :: string where "DoNotAttempt = ''DoNotAttempt''"

text \<open>
  Modelled from the spec: the package function \<open>RewriteImagePullSpec(ImageResolutionType)\<close>,
  which the method of the same name calls on the policy of a rule and on the global
  policy, is not among the sources. The comment on the method and \<open>TestResolutionConfig\<close>
  fix its values: true on \<open>RequiredRewrite\<close> and \<open>AttemptRewrite\<close>, false on \<open>DoNotAttempt\<close>
  and on the empty policy of a rule that names none. The definitions below take the
  function as a parameter; this one instantiates it in closed statements.
\<close>

definition RewriteImagePullSpec_policy :: "string \<Rightarrow> bool" where
  "RewriteImagePullSpec_policy imageResolutionType =
     (imageResolutionType = RequiredRewrite \<or> imageResolutionType = AttemptRewrite)"

text \<open>\<open>resolutionRuleCoversResource\<close>: wildcard checking on resource names.\<close>

definition resolutionRuleCoversResource :: "GroupResource \<Rightarrow> GroupResource \<Rightarrow> bool" where
  "resolutionRuleCoversResource rule gr =
     (grGroup rule = grGroup gr \<and> (grResource rule = grResource gr \<or> grResource rule = ''*''))"

fun Covers_loop :: "ImageResolutionPolicyRule list \<Rightarrow> GroupResource \<Rightarrow> bool" where
  "Covers_loop [] gr = False"
| "Covers_loop (rule # rest) gr =
     (if resolutionRuleCoversResource (ruleTargetResource rule) gr then True
      else Covers_loop rest gr)"

definition Covers :: "ImagePolicyConfig \<Rightarrow> GroupResource \<Rightarrow> bool" where
  "Covers config gr = Covers_loop (ResolutionRules config) gr"

text \<open>The keys of the map \<open>skipImageRewriteOnUpdate\<close>.\<close>

definition skipImageRewriteOnUpdate :: "GroupResource list" where
  "skipImageRewriteOnUpdate =
     [\<lparr>grGroup = ''batch'', grResource = ''jobs''\<rparr>,
      \<lparr>grGroup = ''build.openshift.io'', grResource = ''builds''\<rparr>,
      \<lparr>grGroup = ''apps'', grResource = ''statefulsets''\<rparr>]"

text \<open>
  The loop over the rules in \<open>RewriteImagePullSpec\<close> and what follows it;
  \<open>hasMatchingRule\<close> is the variable of the source.
\<close>

fun RewriteImagePullSpec_loop ::
  "(string \<Rightarrow> bool) \<Rightarrow> ImagePolicyConfig \<Rightarrow> ImageResolutionPolicyRule list
     \<Rightarrow> ImagePolicyAttributes \<Rightarrow> GroupResource \<Rightarrow> bool \<Rightarrow> bool" where
  "RewriteImagePullSpec_loop rewrites config [] attr gr hasMatchingRule =
     (if hasMatchingRule then False else rewrites (ResolveImages config))"
| "RewriteImagePullSpec_loop rewrites config (rule # rest) attr gr hasMatchingRule =
     (if \<not> resolutionRuleCoversResource (ruleTargetResource rule) gr
      then RewriteImagePullSpec_loop rewrites config rest attr gr hasMatchingRule
      else if ruleLocalNames rule \<and> ipaLocalRewrite attr then True
      else if rewrites (rulePolicy rule) then True
      else RewriteImagePullSpec_loop rewrites config rest attr gr True)"

definition RewriteImagePullSpec ::
  "(string \<Rightarrow> bool) \<Rightarrow> ImagePolicyConfig \<Rightarrow> ImagePolicyAttributes \<Rightarrow> bool \<Rightarrow> GroupResource
     \<Rightarrow> bool" where
  "RewriteImagePullSpec rewrites config attr isUpdate gr =
     (if isUpdate \<and> gr \<in> set skipImageRewriteOnUpdate then False
      else RewriteImagePullSpec_loop rewrites config (ResolutionRules config) attr gr False)"

text \<open>What the rules say, when a rule covers the resource.\<close>

definition ruleRewrites ::
  "(string \<Rightarrow> bool) \<Rightarrow> ImagePolicyAttributes \<Rightarrow> GroupResource \<Rightarrow> ImageResolutionPolicyRule
     \<Rightarrow> bool" where
  "ruleRewrites rewrites attr gr rule =
     (resolutionRuleCoversResource (ruleTargetResource rule) gr
      \<and> (ruleLocalNames rule \<and> ipaLocalRewrite attr \<or> rewrites (rulePolicy rule)))"

definition ruleCovers :: "GroupResource \<Rightarrow> ImageResolutionPolicyRule \<Rightarrow> bool" where
  "ruleCovers gr rule = resolutionRuleCoversResource (ruleTargetResource rule) gr"

text \<open>
  The decision in the order the specification words it: the rules that cover the
  resource first, then the resources that are immutable on update, then the global
  policy.
\<close>

definition RewriteImagePullSpec_rules_first ::
  "(string \<Rightarrow> bool) \<Rightarrow> ImagePolicyConfig \<Rightarrow> ImagePolicyAttributes \<Rightarrow> bool \<Rightarrow> GroupResource
     \<Rightarrow> bool" where
  "RewriteImagePullSpec_rules_first rewrites config attr isUpdate gr =
     (if list_ex (ruleCovers gr) (ResolutionRules config)
      then list_ex (ruleRewrites rewrites attr gr) (ResolutionRules config)
      else if isUpdate \<and> gr \<in> set skipImageRewriteOnUpdate then False
      else rewrites (ResolveImages config))"

subsection \<open>Fixtures for \<open>RewriteImagePullSpec\<close>\<close>

text \<open>Fixtures: the cases "resource match skips on job update" and its neighbours of
  \<open>TestResolutionConfig\<close>.\<close>

definition jobs :: GroupResource where
  "jobs = \<lparr>grGroup = ''batch'', grResource = ''jobs''\<rparr>"

definition config_jobs_local :: ImagePolicyConfig where
  "config_jobs_local = \<lparr>ResolveImages = DoNotAttempt,
     ResolutionRules = [\<lparr>rulePolicy = '''', ruleTargetResource = jobs, ruleLocalNames = True\<rparr>]\<rparr>"

definition attrs_local_rewrite :: ImagePolicyAttributes where
  "attrs_local_rewrite = \<lparr>ipaName = emptyReference, ipaImage = None,
     ipaIntegratedRegistry = False, ipaLocalRewrite = True\<rparr>"

subsection \<open>The plugin: \<open>admit\<close> and \<open>mutationPreventer\<close>\<close>

text \<open>\<open>kapi.ObjectReference\<close>, the form in which an image reference of an object is handed
  to a callback.\<close>

record ObjectReference =
  orKind :: string
  orNamespace :: string
  orName :: string
  orUID :: string
  orAPIVersion :: string
  orResourceVersion :: string
  orFieldPath :: string

text \<open>
  \<open>ImageReferenceMutateFunc\<close> is \<open>func(ref *kapi.ObjectReference) error\<close>: the callback
  may change the reference it points to. In the model it returns the error and the
  reference as the call leaves it.

  \<open>ImageReferenceMutator\<close> is an interface of the package
  \<open>internalimagereferencemutators\<close>: \<open>Mutate(fn)\<close> calls \<open>fn\<close> on the image references of
  the object the mutator was made for and returns a list of field errors. In the model
  a mutator takes the callback and the object, and returns the errors and the object
  as the call leaves it.
\<close>

type_synonym ImageReferenceMutateFunc = "ObjectReference \<Rightarrow> error option \<times> ObjectReference"

type_synonym 'obj ImageReferenceMutator =
  "ImageReferenceMutateFunc \<Rightarrow> 'obj \<Rightarrow> error list \<times> 'obj"

text \<open>
  The callback that \<open>mutationPreventer.Mutate\<close> hands to the mutator it wraps:
  \<^verbatim>\<open>original := ref.DeepCopy()
  if err := fn(ref); err != nil {
      return fmt.Errorf("error in image policy validation: %v", err)
  }
  if !reflect.DeepEqual(ref, original) {
      return fmt.Errorf("this image is prohibited by policy (changed after admission)")
  }
  return nil\<close>
\<close>

definition preventMutation :: "ImageReferenceMutateFunc \<Rightarrow> ImageReferenceMutateFunc" where
  "preventMutation fn ref =
     (let original = ref
      in case fn ref of
           (Some err, ref') \<Rightarrow>
             (Some (PlainError (''error in image policy validation: '' @ Error err)), ref')
         | (None, ref') \<Rightarrow>
             if ref' \<noteq> original
             then (Some (PlainError
                    ''this image is prohibited by policy (changed after admission)''), ref')
             else (None, ref'))"

definition mutationPreventer_Mutate ::
  "'obj ImageReferenceMutator \<Rightarrow> 'obj ImageReferenceMutator" where
  "mutationPreventer_Mutate m fn = m (preventMutation fn)"


fun strings_Split_comma :: "string \<Rightarrow> string list" where
  "strings_Split_comma [] = [[]]"
| "strings_Split_comma (c # s) =
     (if c = CHR '','' then [] # strings_Split_comma s
      else (case strings_Split_comma s of
              [] \<Rightarrow> [[c]]
            | w # ws \<Rightarrow> (c # w) # ws))"

text \<open>
  The annotation of a namespace that lists the rules to ignore; the constant is
  declared in the API package of the plugin.
\<close>

definition IgnorePolicyRulesAnnotation :: string where
  "IgnorePolicyRulesAnnotation = ''alpha.image.policy.openshift.io/ignore-rules''"

text \<open>
  \<open>apierrs.NewForbidden\<close> of the API machinery: a status error with reason Forbidden
  for the resource; of its message the model keeps the text of the cause.
\<close>

definition NewForbidden :: "GroupResource \<Rightarrow> string \<Rightarrow> error \<Rightarrow> error" where
  "NewForbidden gr name err =
     StatusError ''Forbidden''
       (Some \<lparr>detailsKind = grResource gr, detailsGroup = grGroup gr\<rparr>)
       (''forbidden: '' @ Error err)"

text \<open>
  \<open>imagePolicyPlugin\<close> with what \<open>admit\<close> uses of its surroundings: the configuration,
  \<open>accepter.Covers\<close>, the namespace lister (it answers with the annotations of the
  namespace), and three functions of this repository that are not among the sources
  and are parameters here: \<open>GetImageReferenceMutator\<close>, the name Go prints for the type
  of an object, and \<open>accept\<close>, which is given the policy, the mutator, the operation and
  the excluded rules and returns its error and the object as it leaves it.
\<close>

record 'obj imagePolicyPlugin =
  pluginConfig :: ImagePolicyConfig
  accepter_Covers :: "GroupResource \<Rightarrow> bool"
  nsLister_Get :: "string \<Rightarrow> error + (string \<times> string) list"
  GetImageReferenceMutator :: "'obj \<Rightarrow> 'obj option \<Rightarrow> error + 'obj ImageReferenceMutator"
  typeName :: "'obj \<Rightarrow> string"
  accept :: "ImagePolicyConfig \<Rightarrow> 'obj ImageReferenceMutator \<Rightarrow> 'obj Attributes
               \<Rightarrow> string set option \<Rightarrow> error option \<times> 'obj"

text \<open>The exclusion rules \<open>admit\<close> loads from the namespace cache.\<close>

definition excludedRules :: "'obj imagePolicyPlugin \<Rightarrow> 'obj Attributes \<Rightarrow> string set option" where
  "excludedRules a attr =
     (let ns = attrNamespace attr
      in if length ns > 0 then
           (case nsLister_Get a ns of
              Inl err \<Rightarrow> None
            | Inr annotations \<Rightarrow>
                (let v = (case map_of annotations IgnorePolicyRulesAnnotation of
                            None \<Rightarrow> '''' | Some v \<Rightarrow> v)
                 in if length v > 0 then Some (set (strings_Split_comma v)) else None))
         else None)"

text \<open>\<open>admit\<close> returns its error and the object of the operation as the call leaves it.\<close>

definition admit :: "'obj imagePolicyPlugin \<Rightarrow> 'obj Attributes \<Rightarrow> bool \<Rightarrow> error option \<times> 'obj" where
  "admit a attr mutationAllowed =
     (if attrOperation attr = Create \<or> attrOperation attr = Update then
        (if length (attrSubresource attr) > 0 then (None, attrObject attr)
         else
           (let policy = pluginConfig a;
                gr = attrResource attr
            in if \<not> accepter_Covers a gr \<and> \<not> Covers policy gr then (None, attrObject attr)
               else
                 (case GetImageReferenceMutator a (attrObject attr) (attrOldObject attr) of
                    Inl err \<Rightarrow>
                      (Some (NewForbidden gr (attrName attr)
                         (PlainError (''unable to apply image policy against objects of type ''
                            @ typeName a (attrObject attr) @ '': '' @ Error err))),
                       attrObject attr)
                  | Inr m \<Rightarrow>
                      (let m = (if \<not> mutationAllowed then mutationPreventer_Mutate m else m)
                       in accept a policy m attr (excludedRules a attr)))))
      else (None, attrObject attr))"



subsection \<open>The mutator of pods and \<open>accept\<close>\<close>








subsection \<open>Fixtures for the plugin\<close>

text \<open>
  The objects of the fixtures hold one image reference, and are that reference. The
  mutator hands the callback the reference the object holds (Go: a pointer into the
  object) and collects the callback's error.
\<close>

definition direct_mutator :: "ObjectReference ImageReferenceMutator" where
  "direct_mutator fn obj =
     (case fn obj of
        (None, ref) \<Rightarrow> ([], ref)
      | (Some err, ref) \<Rightarrow> ([err], ref))"

definition ref_latest :: ObjectReference where
  "ref_latest = \<lparr>orKind = ''DockerImage'', orNamespace = '''',
     orName = ''myregistry.com/mysql/mysql:latest'', orUID = '''', orAPIVersion = '''',
     orResourceVersion = '''', orFieldPath = ''''\<rparr>"

text \<open>A callback that rewrites every reference to the digest it resolves to.\<close>

definition rewrite_to_digest :: ImageReferenceMutateFunc where
  "rewrite_to_digest ref = (None, ref\<lparr>orName := ''myregistry.com/mysql/mysql@sha256:a3ed''\<rparr>)"

definition config_rewrite :: ImagePolicyConfig where
  "config_rewrite = \<lparr>ResolveImages = AttemptRewrite, ResolutionRules = []\<rparr>"

text \<open>
  A plugin whose \<open>accept\<close> runs the rewriting callback through the mutator and returns
  the first error.
\<close>

definition plugin_rewrite :: "ObjectReference imagePolicyPlugin" where
  "plugin_rewrite =
     \<lparr>pluginConfig = config_rewrite,
      accepter_Covers = (\<lambda>gr. True),
      nsLister_Get = (\<lambda>ns. Inr []),
      GetImageReferenceMutator = (\<lambda>obj old. Inr direct_mutator),
      typeName = (\<lambda>obj. ''*core.ObjectReference''),
      accept = (\<lambda>policy m attr excluded.
         case m rewrite_to_digest (attrObject attr) of
           ([], obj) \<Rightarrow> (None, obj)
         | (err # errs, obj) \<Rightarrow> (Some err, obj))\<rparr>"

definition attrs_latest :: "ObjectReference Attributes" where
  "attrs_latest = \<lparr>attrOperation = Create, attrSubresource = '''', attrNamespace = ''default'',
     attrName = ''build1'', attrResource = \<lparr>grGroup = ''build.openshift.io'', grResource = ''builds''\<rparr>,
     attrKind = ''Build'', attrObject = ref_latest, attrOldObject = None\<rparr>"






section \<open>Cluster resource quota admission (package clusterresourcequota): properties\<close>

subsection \<open>Lemmas on the sort\<close>

lemma insert_ByName_mset: "mset (insert_ByName q xs) = add_mset q (mset xs)"
  by (induction xs) simp_all

lemma insert_ByName_set: "set (insert_ByName q xs) = insert q (set xs)"
  by (induction xs) auto

lemma insert_ByName_sorted:
  "sorted (map quotaName xs) \<Longrightarrow> sorted (map quotaName (insert_ByName q xs))"
  by (induction xs) (auto simp: ByName_Less_def insert_ByName_set)

lemma sort_Sort_ByName_mset: "mset (sort_Sort_ByName quotas) = mset quotas"
  unfolding sort_Sort_ByName_def
  by (induction quotas) (simp_all add: insert_ByName_mset)

lemma sort_Sort_ByName_sorted: "sorted (map quotaName (sort_Sort_ByName quotas))"
  unfolding sort_Sort_ByName_def
  by (induction quotas) (simp_all add: insert_ByName_sorted)

lemma sorted_names_unique:
  assumes "mset ys = mset xs" and "sorted (map quotaName ys)"
  shows "map quotaName ys = sort (map quotaName xs)"
proof -
  have "mset (map quotaName ys) = mset (map quotaName xs)"
    using assms(1) by simp
  then show ?thesis
    using assms(2) by (rule properties_for_sort [symmetric])
qed

lemma sort_Sort_ByName_names:
  "map quotaName (sort_Sort_ByName quotas) = sort (map quotaName quotas)"
  by (rule sorted_names_unique) (simp_all add: sort_Sort_ByName_mset sort_Sort_ByName_sorted)

subsection \<open>Lemmas on the loops\<close>

lemma acquire_loop_eq:
  "acquire_loop qs locks log =
     (locks @ map (\<lambda>q. GetLock (quotaName q)) qs,
      log @ map (\<lambda>q. Lock (GetLock (quotaName q))) qs)"
  by (induction qs arbitrary: locks log) (simp_all add: Let_def)

lemma release_loop_eq:
  "n \<le> length locks \<Longrightarrow> release_loop locks n log = log @ map Unlock (rev (take n locks))"
proof (induction n arbitrary: log)
  case 0
  then show ?case by simp
next
  case (Suc n)
  then have "take (Suc n) locks = take n locks @ [locks ! n]"
    by (simp add: take_Suc_conv_app_nth)
  with Suc show ?case by simp
qed

lemma lockAquisition_eq:
  "lockAquisition quotas log =
     (\<lambda>l. l @ map Unlock (rev (map Locker (sort (map quotaName quotas)))),
      log @ map Lock (map Locker (sort (map quotaName quotas))))"
proof -
  have "map (\<lambda>q. GetLock (quotaName q)) (sort_Sort_ByName quotas)
      = map Locker (map quotaName (sort_Sort_ByName quotas))"
    by (simp add: GetLock_def)
  then have names: "map (\<lambda>q. GetLock (quotaName q)) (sort_Sort_ByName quotas)
      = map Locker (sort (map quotaName quotas))"
    by (simp only: sort_Sort_ByName_names)
  have "map (\<lambda>q. Lock (GetLock (quotaName q))) (sort_Sort_ByName quotas)
      = map Lock (map Locker (map quotaName (sort_Sort_ByName quotas)))"
    by (simp add: GetLock_def)
  then have names': "map (\<lambda>q. Lock (GetLock (quotaName q))) (sort_Sort_ByName quotas)
      = map Lock (map Locker (sort (map quotaName quotas)))"
    by (simp only: sort_Sort_ByName_names)
  show ?thesis
    unfolding lockAquisition_def
    by (simp add: acquire_loop_eq release_loop_eq names names' fun_eq_iff)
qed

subsection \<open>Replaying the lock calls on a mutex table\<close>

lemma replay_acquire:
  "distinct ls \<Longrightarrow> set ls \<inter> set held = {} \<Longrightarrow>
     replay (map Lock ls @ es) held = replay es (rev ls @ held)"
  by (induction ls arbitrary: held) auto

lemma replay_release:
  "distinct xs \<Longrightarrow> set xs \<inter> set held = {} \<Longrightarrow>
     replay (map Unlock xs @ es) (xs @ held) = replay es held"
  by (induction xs arbitrary: held) auto

lemma lockAquisition_replay:
  assumes "distinct (map quotaName quotas)"
  shows "replay (fst (lockAquisition quotas []) (snd (lockAquisition quotas []))) [] = Some []"
proof -
  define ls where "ls = map Locker (sort (map quotaName quotas))"
  have d: "distinct ls"
    unfolding ls_def using assms by (simp add: distinct_map inj_on_def)
  have "replay (map Lock ls @ map Unlock (rev ls) @ []) [] = replay (map Unlock (rev ls) @ []) (rev ls @ [])"
    using d by (intro replay_acquire) simp_all
  also have "\<dots> = replay [] []"
    using d by (intro replay_release) simp_all
  finally show ?thesis
    by (simp add: lockAquisition_eq ls_def)
qed

subsection \<open>Claims on \<open>lockAquisition\<close>\<close>

text \<open>
  Claim C1. For every list of quota documents and every log of earlier lock calls,
  \<open>lockAquisition\<close> locks one lock per document, the locks taken in ascending order of
  the documents' names (the names of the locks are the sorted list of the documents'
  names), and the function it returns unlocks exactly these locks in the reverse of
  the order in which they were locked.
\<close>

theorem lockAquisition_sorted_then_reverse:
  "\<exists>acquired.
     snd (lockAquisition quotas log) = log @ map Lock acquired
     \<and> sorted (map lockName acquired)
     \<and> mset (map lockName acquired) = mset (map quotaName quotas)
     \<and> fst (lockAquisition quotas log) l = l @ map Unlock (rev acquired)"
proof -
  let ?acq = "map Locker (sort (map quotaName quotas))"
  have names: "map lockName ?acq = sort (map quotaName quotas)"
    by (simp add: comp_def)
  have "snd (lockAquisition quotas log) = log @ map Lock ?acq"
    by (simp add: lockAquisition_eq)
  moreover have "sorted (map lockName ?acq)"
    by (simp only: names sorted_sort)
  moreover have "mset (map lockName ?acq) = mset (map quotaName quotas)"
    by (simp only: names mset_sort)
  moreover have "fst (lockAquisition quotas log) l = l @ map Unlock (rev ?acq)"
    by (simp add: lockAquisition_eq)
  ultimately show ?thesis by blast
qed

theorem lockAquisition_sorted_then_reverse_witness:
  "snd (lockAquisition [quota_beta, quota_alpha, quota_alpine] [])
     = [Lock (Locker ''alpha''), Lock (Locker ''alpine''), Lock (Locker ''beta'')]
   \<and> fst (lockAquisition [quota_beta, quota_alpha, quota_alpine] []) []
     = [Unlock (Locker ''beta''), Unlock (Locker ''alpine''), Unlock (Locker ''alpha'')]"
proof -
  obtain acquired where
    a: "snd (lockAquisition [quota_beta, quota_alpha, quota_alpine] []) = [] @ map Lock acquired"
    and r: "fst (lockAquisition [quota_beta, quota_alpha, quota_alpine] []) []
        = [] @ map Unlock (rev acquired)"
    using lockAquisition_sorted_then_reverse [of "[quota_beta, quota_alpha, quota_alpine]" "[]" "[]"]
    by blast
  have "snd (lockAquisition [quota_beta, quota_alpha, quota_alpine] [])
      = map Lock [Locker ''alpha'', Locker ''alpine'', Locker ''beta'']"
    by code_simp
  with a have "acquired = [Locker ''alpha'', Locker ''alpine'', Locker ''beta'']"
    by (auto simp: Cons_eq_map_conv)
  with a r show ?thesis by simp
qed

subsection \<open>Lemmas on \<open>waitForSyncedStore\<close>\<close>

text \<open>
  Started \<open>m\<close> poll intervals before the timeout, the wait returns at the first poll
  instant at which both informers report synced, or else at the timeout; the boolean
  is what the informers report at the instant of return.
\<close>

lemma waitForSyncedStore_polls:
  "timeout = t + m * (100 * Millisecond) \<Longrightarrow>
   \<exists>k n'. k \<le> m
     \<and> waitForSyncedStore q timeout t n =
         (clusterQuotaSynced q (t + k * (100 * Millisecond))
            \<and> namespaceSynced q (t + k * (100 * Millisecond)),
          t + k * (100 * Millisecond), n')
     \<and> (\<forall>j<k. \<not> (clusterQuotaSynced q (t + j * (100 * Millisecond))
            \<and> namespaceSynced q (t + j * (100 * Millisecond))))
     \<and> (clusterQuotaSynced q (t + k * (100 * Millisecond))
            \<and> namespaceSynced q (t + k * (100 * Millisecond)) \<or> k = m)"
proof (induction m arbitrary: t n)
  case 0
  then have eq: "timeout = t" by simp
  show ?case
    apply (rule exI [of _ 0])
    apply (subst waitForSyncedStore.simps)
    apply (auto simp: eq Millisecond_def)
    done
next
  case (Suc m)
  let ?P = "100 * Millisecond"
  show ?case
  proof (cases "clusterQuotaSynced q t \<and> namespaceSynced q t")
    case True
    then have w: "waitForSyncedStore q timeout t n = (True, t, Suc n)"
      by (subst waitForSyncedStore.simps) auto
    show ?thesis
      by (rule exI [of _ 0], rule exI [of _ "Suc n"]) (use w True in auto)
  next
    case ns: False
    have P: "0 < ?P" by (simp add: Millisecond_def)
    show ?thesis
    proof (cases "timeout = t + ?P \<and> selectTimeout q timeout")
      case True
      then have m0: "m = 0" using Suc.prems P by simp
      have w: "waitForSyncedStore q timeout t n =
          (clusterQuotaSynced q timeout \<and> namespaceSynced q timeout, timeout, Suc (Suc n))"
        using ns True by (subst waitForSyncedStore.simps) (auto simp: max_def)
      show ?thesis
        by (rule exI [of _ 1], rule exI [of _ "Suc (Suc n)"]) (use w True ns m0 in auto)
    next
      case False
      have ge: "\<not> timeout < t + ?P" using Suc.prems by simp
      have step: "waitForSyncedStore q timeout t n = waitForSyncedStore q timeout (t + ?P) (Suc n)"
        using ns False ge by (subst waitForSyncedStore.simps) auto
      have "timeout = (t + ?P) + m * ?P" using Suc.prems by simp
      from Suc.IH [OF this, of "Suc n"] obtain k n' where
        k: "k \<le> m"
        and w: "waitForSyncedStore q timeout (t + ?P) (Suc n) =
          (clusterQuotaSynced q (t + ?P + k * ?P) \<and> namespaceSynced q (t + ?P + k * ?P),
           t + ?P + k * ?P, n')"
        and early: "\<forall>j<k. \<not> (clusterQuotaSynced q (t + ?P + j * ?P)
            \<and> namespaceSynced q (t + ?P + j * ?P))"
        and last: "clusterQuotaSynced q (t + ?P + k * ?P)
            \<and> namespaceSynced q (t + ?P + k * ?P) \<or> k = m"
        by blast
      have shift: "t + ?P + j * ?P = t + Suc j * ?P" for j by simp
      have early': "\<forall>j<Suc k. \<not> (clusterQuotaSynced q (t + j * ?P)
            \<and> namespaceSynced q (t + j * ?P))"
      proof (intro allI impI)
        fix j assume "j < Suc k"
        show "\<not> (clusterQuotaSynced q (t + j * ?P) \<and> namespaceSynced q (t + j * ?P))"
        proof (cases j)
          case 0
          then show ?thesis using ns by simp
        next
          case (Suc j')
          then have "j' < k" using \<open>j < Suc k\<close> by simp
          then show ?thesis using early Suc by (simp only: shift) blast
        qed
      qed
      have w': "waitForSyncedStore q timeout t n =
          (clusterQuotaSynced q (t + Suc k * ?P) \<and> namespaceSynced q (t + Suc k * ?P),
           t + Suc k * ?P, n')"
        using w step by (simp only: shift)
      have last': "clusterQuotaSynced q (t + Suc k * ?P)
            \<and> namespaceSynced q (t + Suc k * ?P) \<or> Suc k = Suc m"
        using last by (simp only: shift) blast
      show ?thesis
        by (rule exI [of _ "Suc k"], rule exI [of _ n']) (use k w' early' last' in blast)
    qed
  qed
qed

lemma timeToWaitForCacheSync_polls:
  "timeToWaitForCacheSync = 100 * (100 * Millisecond)"
  by (simp add: timeToWaitForCacheSync_def Second_def)

subsection \<open>Claims on \<open>Validate\<close>\<close>

text \<open>
  Claim C2. For an operation that is not on a subresource and has a namespace,
  \<open>Validate\<close> polls the two informers at intervals of 100 ms, starting at once, for at
  most \<open>timeToWaitForCacheSync\<close> = 10 s (100 intervals). It returns at the first poll
  instant \<open>k\<close> at which both report synced and then hands the operation to the evaluator;
  when no poll instant up to the timeout had both synced, it stops at the timeout and
  returns Forbidden "caches not synchronized" without calling the evaluator.
\<close>

theorem Validate_waits_bounded_then_fails_closed:
  assumes "attrSubresource a = []" and "attrNamespace a \<noteq> []"
  shows "\<exists>k n. k \<le> 100
     \<and> pollInstant s k \<le> clock s + 10 * Second
     \<and> (\<forall>j<k. \<not> bothSynced q (pollInstant s j))
     \<and> (if bothSynced q (pollInstant s k)
         then Validate q Evaluate a s =
                Evaluate lockAquisition a
                  (s\<lparr>clock := pollInstant s k, syncPolls := syncPolls s + n,
                     evaluatorBuilt := True, evaluated := evaluated s @ [a]\<rparr>)
         else k = 100
            \<and> pollInstant s k = clock s + timeToWaitForCacheSync
            \<and> Validate q Evaluate a s =
                (Some (Forbidden ''caches not synchronized''),
                 s\<lparr>clock := pollInstant s k, syncPolls := syncPolls s + n\<rparr>))"
proof -
  let ?P = "100 * Millisecond"
  have "clock s + timeToWaitForCacheSync = clock s + 100 * ?P"
    by (simp only: timeToWaitForCacheSync_polls)
  from waitForSyncedStore_polls [OF this, of q 0] obtain k n where
    k: "k \<le> 100"
    and w: "waitForSyncedStore q (clock s + timeToWaitForCacheSync) (clock s) 0 =
        (clusterQuotaSynced q (clock s + k * ?P) \<and> namespaceSynced q (clock s + k * ?P),
         clock s + k * ?P, n)"
    and early: "\<forall>j<k. \<not> (clusterQuotaSynced q (clock s + j * ?P)
        \<and> namespaceSynced q (clock s + j * ?P))"
    and last: "clusterQuotaSynced q (clock s + k * ?P)
        \<and> namespaceSynced q (clock s + k * ?P) \<or> k = 100"
    by blast
  have bound: "pollInstant s k \<le> clock s + 10 * Second"
    using k by (simp add: pollInstant_def Second_def)
  have early': "\<forall>j<k. \<not> bothSynced q (pollInstant s j)"
    using early by (simp add: pollInstant_def bothSynced_def)
  show ?thesis
  proof (cases "bothSynced q (pollInstant s k)")
    case True
    then have "Validate q Evaluate a s =
        Evaluate lockAquisition a
          (s\<lparr>clock := pollInstant s k, syncPolls := syncPolls s + n,
             evaluatorBuilt := True, evaluated := evaluated s @ [a]\<rparr>)"
      using assms w by (simp add: Validate_def pollInstant_def bothSynced_def)
    with True k bound early' show ?thesis
      by (intro exI [of _ k] exI [of _ n]) simp
  next
    case False
    then have k100: "k = 100"
      using last by (auto simp: pollInstant_def bothSynced_def)
    then have t: "pollInstant s k = clock s + timeToWaitForCacheSync"
      by (simp add: pollInstant_def timeToWaitForCacheSync_polls)
    have "Validate q Evaluate a s =
        (Some (Forbidden ''caches not synchronized''),
         s\<lparr>clock := pollInstant s k, syncPolls := syncPolls s + n\<rparr>)"
      using False assms w by (simp add: Validate_def pollInstant_def bothSynced_def)
    with False k bound early' k100 t show ?thesis
      by (intro exI [of _ k] exI [of _ n]) simp
  qed
qed

theorem Validate_waits_bounded_then_fails_closed_witness:
  "fst (Validate env_never_synced evaluator_deny attrs_pod state0)
     = Some (Forbidden ''caches not synchronized'')
   \<and> clock (snd (Validate env_never_synced evaluator_deny attrs_pod state0)) = 10000000000
   \<and> evaluated (snd (Validate env_never_synced evaluator_deny attrs_pod state0)) = []
   \<and> fst (Validate env_synced evaluator_deny attrs_pod state0)
     = Some (EvaluatorError ''exceeded quota'')
   \<and> clock (snd (Validate env_synced evaluator_deny attrs_pod state0)) = 0
   \<and> evaluated (snd (Validate env_synced evaluator_deny attrs_pod state0)) = [attrs_pod]
   \<and> fst (Validate env_synced_late evaluator_deny attrs_pod state0)
     = Some (EvaluatorError ''exceeded quota'')
   \<and> clock (snd (Validate env_synced_late evaluator_deny attrs_pod state0)) = 300000000"
proof -
  have a: "attrSubresource attrs_pod = []" "attrNamespace attrs_pod \<noteq> []"
    by (simp_all add: attrs_pod_def)
  have never: "\<not> bothSynced env_never_synced t" for t
    by (simp add: bothSynced_def env_never_synced_def)
  have always: "bothSynced env_synced t" for t
    by (simp add: bothSynced_def env_synced_def)
  from Validate_waits_bounded_then_fails_closed [OF a, of state0 env_never_synced evaluator_deny]
  obtain k n where
    "pollInstant state0 k = clock state0 + timeToWaitForCacheSync"
    "Validate env_never_synced evaluator_deny attrs_pod state0 =
       (Some (Forbidden ''caches not synchronized''),
        state0\<lparr>clock := pollInstant state0 k, syncPolls := syncPolls state0 + n\<rparr>)"
    using never by auto
  then have 1: "fst (Validate env_never_synced evaluator_deny attrs_pod state0)
       = Some (Forbidden ''caches not synchronized'')
     \<and> clock (snd (Validate env_never_synced evaluator_deny attrs_pod state0)) = 10000000000
     \<and> evaluated (snd (Validate env_never_synced evaluator_deny attrs_pod state0)) = []"
    by (simp add: state0_def timeToWaitForCacheSync_def Second_def Millisecond_def)
  from Validate_waits_bounded_then_fails_closed [OF a, of state0 env_synced evaluator_deny]
  obtain k n where
    "\<forall>j<k. \<not> bothSynced env_synced (pollInstant state0 j)"
    "Validate env_synced evaluator_deny attrs_pod state0 =
       evaluator_deny lockAquisition attrs_pod
         (state0\<lparr>clock := pollInstant state0 k, syncPolls := syncPolls state0 + n,
            evaluatorBuilt := True, evaluated := evaluated state0 @ [attrs_pod]\<rparr>)"
    using always by auto
  moreover from this(1) have "k = 0"
    using always by (cases k) auto
  ultimately have 2: "fst (Validate env_synced evaluator_deny attrs_pod state0)
       = Some (EvaluatorError ''exceeded quota'')
     \<and> clock (snd (Validate env_synced evaluator_deny attrs_pod state0)) = 0
     \<and> evaluated (snd (Validate env_synced evaluator_deny attrs_pod state0)) = [attrs_pod]"
    by (simp add: evaluator_deny_def state0_def pollInstant_def)
  have late: "bothSynced env_synced_late (pollInstant state0 j) = (3 \<le> j)" for j
    by (simp add: bothSynced_def env_synced_late_def pollInstant_def state0_def Millisecond_def)
  from Validate_waits_bounded_then_fails_closed [OF a, of state0 env_synced_late evaluator_deny]
  obtain k n where
    early: "\<forall>j<k. \<not> bothSynced env_synced_late (pollInstant state0 j)"
    and last: "if bothSynced env_synced_late (pollInstant state0 k)
         then Validate env_synced_late evaluator_deny attrs_pod state0 =
                evaluator_deny lockAquisition attrs_pod
                  (state0\<lparr>clock := pollInstant state0 k, syncPolls := syncPolls state0 + n,
                     evaluatorBuilt := True, evaluated := evaluated state0 @ [attrs_pod]\<rparr>)
         else k = 100
            \<and> pollInstant state0 k = clock state0 + timeToWaitForCacheSync
            \<and> Validate env_synced_late evaluator_deny attrs_pod state0 =
                (Some (Forbidden ''caches not synchronized''),
                 state0\<lparr>clock := pollInstant state0 k, syncPolls := syncPolls state0 + n\<rparr>)"
    by blast
  have "k \<le> 3"
  proof (rule ccontr)
    assume "\<not> k \<le> 3"
    then have "3 < k" by simp
    with early have "\<not> bothSynced env_synced_late (pollInstant state0 3)" by blast
    then show False by (simp add: late)
  qed
  moreover have "3 \<le> k"
  proof (rule ccontr)
    assume "\<not> 3 \<le> k"
    then have "\<not> bothSynced env_synced_late (pollInstant state0 k)" by (simp add: late)
    with last have "k = 100" by simp
    with \<open>\<not> 3 \<le> k\<close> show False by simp
  qed
  ultimately have "k = 3" by simp
  with last late [of 3]
  have 3: "fst (Validate env_synced_late evaluator_deny attrs_pod state0)
       = Some (EvaluatorError ''exceeded quota'')
     \<and> clock (snd (Validate env_synced_late evaluator_deny attrs_pod state0)) = 300000000"
    by (simp add: evaluator_deny_def pollInstant_def state0_def Millisecond_def)
  from 1 2 3 show ?thesis by simp
qed

text \<open>
  Claim C8. For every operation on a subresource and for every operation without a
  namespace, \<open>Validate\<close> returns no error and leaves the state as it was: the clock has
  not advanced and the informers were not polled (no wait for the caches), the
  evaluator was neither built nor called, and no lock call was made, whatever the
  informers and the evaluator are.
\<close>

theorem Validate_ignores_subresources_and_cluster_scope:
  "attrSubresource a \<noteq> [] \<or> attrNamespace a = [] \<Longrightarrow> Validate q Evaluate a s = (None, s)"
  by (auto simp: Validate_def)

theorem Validate_ignores_subresources_and_cluster_scope_witness:
  "Validate env_never_synced evaluator_deny (attrs_pod\<lparr>attrSubresource := ''status''\<rparr>) state0
     = (None, state0)
   \<and> Validate env_synced evaluator_deny (attrs_pod\<lparr>attrNamespace := ''''\<rparr>) state0
     = (None, state0)"
  using Validate_ignores_subresources_and_cluster_scope
          [of "attrs_pod\<lparr>attrSubresource := ''status''\<rparr>" env_never_synced evaluator_deny state0]
        Validate_ignores_subresources_and_cluster_scope
          [of "attrs_pod\<lparr>attrNamespace := ''''\<rparr>" env_synced evaluator_deny state0]
  by simp

section \<open>Image policy admission (package imagepolicy): properties\<close>

subsection \<open>Lemmas on the cache\<close>

lemma map_of_filter_other:
  "k' \<noteq> k \<Longrightarrow> map_of (filter (\<lambda>kv. fst kv \<noteq> k) xs) k' = map_of xs k'"
  by (induction xs) auto

lemma map_of_move_to_front:
  "map_of ((k, v) # filter (\<lambda>kv. fst kv \<noteq> k) xs) k' = (if k' = k then Some v else map_of xs k')"
  by (simp add: map_of_filter_other)

lemma lru_Get_value: "fst (lru_Get key c) = map_of (lruItems c) key"
  by (simp add: lru_Get_def split: option.splits)

lemma lru_Get_items: "map_of (lruItems (snd (lru_Get key c))) k = map_of (lruItems c) k"
  by (cases "k = key") (simp_all add: lru_Get_def map_of_filter_other split: option.splits)

lemma lru_Get_size: "lruSize (snd (lru_Get key c)) = lruSize c"
  by (simp add: lru_Get_def split: option.splits)

lemma lru_Add_size: "lruSize (lru_Add key v c) = lruSize c"
  by (simp add: lru_Add_def Let_def split: option.splits)

lemma lru_Add_key:
  assumes "0 < lruSize c"
  shows "map_of (lruItems (lru_Add key v c)) key = Some v"
proof (cases "map_of (lruItems c) key")
  case (Some old)
  then show ?thesis by (simp add: lru_Add_def)
next
  case None
  show ?thesis
  proof (cases "lruItems c")
    case Nil
    with None assms show ?thesis by (simp add: lru_Add_def)
  next
    case (Cons x xs)
    with None show ?thesis by (simp add: lru_Add_def Let_def)
  qed
qed

lemma newImageResolutionCache_configured:
  "newImageResolutionCache client m = Inr c \<Longrightarrow> configured c \<and> lruItems (cache c) = [] \<and> requests c = []"
  by (auto simp: newImageResolutionCache_def lru_New_def configured_def)

subsection \<open>Lemmas on \<open>resolveImageReference\<close>, digest path\<close>

lemma lookup_after_Get:
  "lookup (c\<lparr>cache := snd (lru_Get key (cache c))\<rparr>) = lookup c"
  by (rule ext) (simp add: lookup_def lru_Get_items)

lemma resolveImageReference_hit:
  assumes "refID ref \<noteq> []"
    and "lookup c (refID ref) = Some e"
    and "now < entryExpires e"
  shows "resolveImageReference lib c ref defaultNamespace forceResolveLocalNames now =
     ((Some \<lparr>ipaName = ref, ipaImage = Some (entryImage e), ipaIntegratedRegistry = False,
             ipaLocalRewrite = False\<rparr>, None),
      c\<lparr>cache := snd (lru_Get (refID ref) (cache c))\<rparr>)"
proof -
  have "fst (lru_Get (refID ref) (cache c)) = Some e"
    using assms(2) by (simp add: lru_Get_value lookup_def)
  then obtain cache1 where g: "lru_Get (refID ref) (cache c) = (Some e, cache1)"
    by (cases "lru_Get (refID ref) (cache c)") simp
  show ?thesis
    using assms(1,3) by (simp add: resolveImageReference_def g)
qed

lemma resolveImageReference_miss:
  assumes "refID ref \<noteq> []"
    and "\<forall>e. lookup c (refID ref) = Some e \<longrightarrow> \<not> now < entryExpires e"
  shows "resolveImageReference lib c ref defaultNamespace forceResolveLocalNames now =
     (let c2 = request (GetImage (refID ref)) (c\<lparr>cache := snd (lru_Get (refID ref) (cache c))\<rparr>)
      in case Images_Get (imageClient c) (refID ref) of
           Inl err \<Rightarrow> ((None, Some err), c2)
         | Inr img \<Rightarrow>
             ((Some \<lparr>ipaName = ref, ipaImage = Some img,
                     ipaIntegratedRegistry = integrated c (refRegistry ref),
                     ipaLocalRewrite = False\<rparr>, None),
              c2\<lparr>cache := lru_Add (refID ref)
                    \<lparr>entryExpires = now + expiration c, entryImage = img\<rparr> (cache c2)\<rparr>))"
proof -
  obtain found cache1 where g: "lru_Get (refID ref) (cache c) = (found, cache1)"
    by (cases "lru_Get (refID ref) (cache c)")
  then have "lookup c (refID ref) = found"
    using lru_Get_value [of "refID ref" "cache c"] by (simp add: lookup_def)
  with assms(2) have stale: "(case found of None \<Rightarrow> None
        | Some cached \<Rightarrow> if now < entryExpires cached then Some cached else None) = None"
    by (cases found) auto
  show ?thesis
    using assms(1)
    by (simp add: resolveImageReference_def g stale Let_def request_def split: sum.splits)
qed

lemma resolveImageReference_miss_fetched:
  assumes "refID ref \<noteq> []"
    and "\<forall>e. lookup c (refID ref) = Some e \<longrightarrow> \<not> now < entryExpires e"
    and "Images_Get (imageClient c) (refID ref) = Inr img"
    and "0 < lruSize (cache c)"
  shows "fst (resolveImageReference lib c ref defaultNamespace forceResolveLocalNames now) =
       (Some \<lparr>ipaName = ref, ipaImage = Some img,
              ipaIntegratedRegistry = integrated c (refRegistry ref),
              ipaLocalRewrite = False\<rparr>, None)"
    and "lookup (snd (resolveImageReference lib c ref defaultNamespace forceResolveLocalNames now))
           (refID ref) = Some \<lparr>entryExpires = now + expiration c, entryImage = img\<rparr>"
    and "requests (snd (resolveImageReference lib c ref defaultNamespace forceResolveLocalNames now))
           = requests c @ [GetImage (refID ref)]"
  using assms
  by (simp_all add: resolveImageReference_miss Let_def request_def lookup_def lru_Add_key
        lru_Get_size)

lemma resolveImageReference_miss_failed:
  assumes "refID ref \<noteq> []"
    and "\<forall>e. lookup c (refID ref) = Some e \<longrightarrow> \<not> now < entryExpires e"
    and "Images_Get (imageClient c) (refID ref) = Inl err"
  shows "fst (resolveImageReference lib c ref defaultNamespace forceResolveLocalNames now) =
       (None, Some err)"
    and "lookup (snd (resolveImageReference lib c ref defaultNamespace forceResolveLocalNames now))
           = lookup c"
    and "requests (snd (resolveImageReference lib c ref defaultNamespace forceResolveLocalNames now))
           = requests c @ [GetImage (refID ref)]"
  using assms
  by (simp_all add: resolveImageReference_miss Let_def request_def lookup_def lru_Get_items
        fun_eq_iff)

text \<open>
  A hit that follows a miss of the same reference within the time to live: the hit
  returns the attributes of the miss with \<open>IntegratedRegistry\<close> reset to false, whatever
  the store holds by then.
\<close>

lemma resolveImageReference_hit_after_miss:
  assumes "refID ref \<noteq> []"
    and "0 < lruSize (cache c)"
    and "\<forall>e. lookup c (refID ref) = Some e \<longrightarrow> \<not> now1 < entryExpires e"
    and "Images_Get (imageClient c) (refID ref) = Inr img"
    and "now2 < now1 + expiration c"
    and "c1 = snd (resolveImageReference lib c ref ns1 force1 now1)"
  shows "fst (resolveImageReference lib (c1\<lparr>imageClient := client2\<rparr>) ref ns2 force2 now2) =
       (Some \<lparr>ipaName = ref, ipaImage = Some img, ipaIntegratedRegistry = False,
              ipaLocalRewrite = False\<rparr>, None)"
proof -
  have "lookup c1 (refID ref) = Some \<lparr>entryExpires = now1 + expiration c, entryImage = img\<rparr>"
    using resolveImageReference_miss_fetched(2) [OF assms(1,3,4,2)] assms(6) by simp
  then have "lookup (c1\<lparr>imageClient := client2\<rparr>) (refID ref)
      = Some \<lparr>entryExpires = now1 + expiration c, entryImage = img\<rparr>"
    by (simp add: lookup_def)
  from resolveImageReference_hit [OF assms(1) this] assms(5) show ?thesis
    by simp
qed

text \<open>
  The resolver changes its cache and the log of requests only: the client, the
  matcher of the integrated registry, the time to live and the capacity stay.
\<close>

lemma resolveImageStreamTag_frame:
  "imageClient (snd (resolveImageStreamTag lib c namespace name tag partial force now)) = imageClient c
   \<and> integrated (snd (resolveImageStreamTag lib c namespace name tag partial force now)) = integrated c
   \<and> expiration (snd (resolveImageStreamTag lib c namespace name tag partial force now)) = expiration c
   \<and> lruSize (cache (snd (resolveImageStreamTag lib c namespace name tag partial force now)))
       = lruSize (cache c)"
  by (simp add: resolveImageStreamTag_def Let_def request_def lru_Add_size
        split: sum.splits)

lemma resolveImageReference_frame:
  "imageClient (snd (resolveImageReference lib c ref ns force now)) = imageClient c
   \<and> integrated (snd (resolveImageReference lib c ref ns force now)) = integrated c
   \<and> expiration (snd (resolveImageReference lib c ref ns force now)) = expiration c
   \<and> lruSize (cache (snd (resolveImageReference lib c ref ns force now))) = lruSize (cache c)"
proof (cases "refID ref = []")
  case True
  then show ?thesis
    by (simp add: resolveImageReference_def Let_def resolveImageStreamTag_frame)
next
  case False
  obtain found cache1 where g: "lru_Get (refID ref) (cache c) = (found, cache1)"
    by (cases "lru_Get (refID ref) (cache c)")
  then have "lruSize cache1 = lruSize (cache c)"
    using lru_Get_size [of "refID ref" "cache c"] by simp
  with False g show ?thesis
    by (simp add: resolveImageReference_def Let_def request_def lru_Add_size
          split: sum.splits option.splits)
qed

lemma resolveImageReference_configured:
  "configured c \<Longrightarrow> configured (snd (resolveImageReference lib c ref ns force now))"
  by (simp add: configured_def resolveImageReference_frame)

subsection \<open>Facts on the fixtures for the resolver\<close>

lemma cache_new_constructed:
  "newImageResolutionCache client_good integrated_registry = Inr cache_new"
  by (simp add: newImageResolutionCache_def lru_New_def cache_new_def)

lemma cache_new_facts:
  "configured cache_new" "lookup cache_new key = None" "imageClient cache_new = client_good"
  "requests cache_new = []" "integrated cache_new = integrated_registry"
  "expiration cache_new = time_Minute" "lruSize (cache cache_new) = 128"
  by (simp_all add: cache_new_def configured_def lookup_def)

lemma ref_good_facts:
  "refID ref_good = ''sha256:good''" "refRegistry ref_good = ''integrated.registry''"
  by (simp_all add: ref_good_def)

lemma client_good_image: "Images_Get client_good ''sha256:good'' = Inr image_good"
  by (simp add: client_good_def)

subsection \<open>Claims on \<open>resolveImageReference\<close>\<close>

text \<open>
  Claim C3. For a reference with a non-empty ID and a resolver as the constructor
  configures it (time to live one minute): when the cache holds an entry for the ID
  and \<open>now\<close> is strictly before its expiration, the result carries the cached image,
  no request is sent to the store and the cache holds the same entries; otherwise one
  \<open>GetImage\<close> request for the ID is sent to the store. When the store answers with an
  image, the result carries that image and the cache then holds, for the ID, an entry
  with that image that expires exactly one minute after \<open>now\<close>; when the store answers
  with an error, that error is returned and the entries of the cache stay as they were.
\<close>

theorem resolveImageReference_digest_cached_or_fetched:
  assumes "refID ref \<noteq> []" and "configured c"
  shows
    "(\<forall>e. lookup c (refID ref) = Some e \<and> now < entryExpires e \<longrightarrow>
        fst (resolveImageReference lib c ref ns force now) =
          (Some \<lparr>ipaName = ref, ipaImage = Some (entryImage e),
                 ipaIntegratedRegistry = False, ipaLocalRewrite = False\<rparr>, None)
        \<and> requests (snd (resolveImageReference lib c ref ns force now)) = requests c
        \<and> lookup (snd (resolveImageReference lib c ref ns force now)) = lookup c)
     \<and> ((\<forall>e. lookup c (refID ref) = Some e \<longrightarrow> \<not> now < entryExpires e) \<longrightarrow>
        requests (snd (resolveImageReference lib c ref ns force now))
          = requests c @ [GetImage (refID ref)]
        \<and> (\<forall>img. Images_Get (imageClient c) (refID ref) = Inr img \<longrightarrow>
              fst (resolveImageReference lib c ref ns force now) =
                (Some \<lparr>ipaName = ref, ipaImage = Some img,
                       ipaIntegratedRegistry = integrated c (refRegistry ref),
                       ipaLocalRewrite = False\<rparr>, None)
              \<and> lookup (snd (resolveImageReference lib c ref ns force now)) (refID ref)
                  = Some \<lparr>entryExpires = now + time_Minute, entryImage = img\<rparr>)
        \<and> (\<forall>err. Images_Get (imageClient c) (refID ref) = Inl err \<longrightarrow>
              fst (resolveImageReference lib c ref ns force now) = (None, Some err)
              \<and> lookup (snd (resolveImageReference lib c ref ns force now)) = lookup c))"
proof (intro conjI allI impI)
  fix e
  assume h: "lookup c (refID ref) = Some e \<and> now < entryExpires e"
  then have r: "resolveImageReference lib c ref ns force now =
     ((Some \<lparr>ipaName = ref, ipaImage = Some (entryImage e), ipaIntegratedRegistry = False,
             ipaLocalRewrite = False\<rparr>, None),
      c\<lparr>cache := snd (lru_Get (refID ref) (cache c))\<rparr>)"
    using resolveImageReference_hit [OF assms(1)] by blast
  show "fst (resolveImageReference lib c ref ns force now) =
          (Some \<lparr>ipaName = ref, ipaImage = Some (entryImage e),
                 ipaIntegratedRegistry = False, ipaLocalRewrite = False\<rparr>, None)"
    by (simp add: r)
  show "requests (snd (resolveImageReference lib c ref ns force now)) = requests c"
    by (simp add: r)
  show "lookup (snd (resolveImageReference lib c ref ns force now)) = lookup c"
    by (simp add: r lookup_after_Get)
next
  assume stale: "\<forall>e. lookup c (refID ref) = Some e \<longrightarrow> \<not> now < entryExpires e"
  show "requests (snd (resolveImageReference lib c ref ns force now))
          = requests c @ [GetImage (refID ref)]"
    by (simp add: resolveImageReference_miss [OF assms(1) stale] Let_def request_def
          split: sum.splits)
next
  fix img
  assume stale: "\<forall>e. lookup c (refID ref) = Some e \<longrightarrow> \<not> now < entryExpires e"
    and got: "Images_Get (imageClient c) (refID ref) = Inr img"
  have pos: "0 < lruSize (cache c)"
    using assms(2) by (simp add: configured_def)
  show "fst (resolveImageReference lib c ref ns force now) =
          (Some \<lparr>ipaName = ref, ipaImage = Some img,
                 ipaIntegratedRegistry = integrated c (refRegistry ref),
                 ipaLocalRewrite = False\<rparr>, None)"
    by (rule resolveImageReference_miss_fetched(1) [OF assms(1) stale got pos])
  have "expiration c = time_Minute"
    using assms(2) by (simp add: configured_def)
  then show "lookup (snd (resolveImageReference lib c ref ns force now)) (refID ref)
      = Some \<lparr>entryExpires = now + time_Minute, entryImage = img\<rparr>"
    using resolveImageReference_miss_fetched(2) [OF assms(1) stale got pos, of lib ns force]
    by simp
next
  fix err
  assume stale: "\<forall>e. lookup c (refID ref) = Some e \<longrightarrow> \<not> now < entryExpires e"
    and failed: "Images_Get (imageClient c) (refID ref) = Inl err"
  show "fst (resolveImageReference lib c ref ns force now) = (None, Some err)"
    by (rule resolveImageReference_miss_failed(1) [OF assms(1) stale failed])
  show "lookup (snd (resolveImageReference lib c ref ns force now)) = lookup c"
    by (rule resolveImageReference_miss_failed(2) [OF assms(1) stale failed])
qed

theorem resolveImageReference_digest_cached_or_fetched_witness:
  "fst (resolveImageReference library_fixture cache_new ref_good ''ns'' False 0) =
     (Some \<lparr>ipaName = ref_good, ipaImage = Some image_good, ipaIntegratedRegistry = True,
            ipaLocalRewrite = False\<rparr>, None)
   \<and> lookup (snd (resolveImageReference library_fixture cache_new ref_good ''ns'' False 0))
        ''sha256:good'' = Some \<lparr>entryExpires = 60000000000, entryImage = image_good\<rparr>
   \<and> requests (snd (resolveImageReference library_fixture cache_new ref_good ''ns'' False 0))
        = [GetImage ''sha256:good'']
   \<and> fst (resolveImageReference library_fixture
            (snd (resolveImageReference library_fixture cache_new ref_good ''ns'' False 0))
            ref_good ''ns'' False 59999999999) =
     (Some \<lparr>ipaName = ref_good, ipaImage = Some image_good, ipaIntegratedRegistry = False,
            ipaLocalRewrite = False\<rparr>, None)
   \<and> requests (snd (resolveImageReference library_fixture
            (snd (resolveImageReference library_fixture cache_new ref_good ''ns'' False 0))
            ref_good ''ns'' False 59999999999))
        = [GetImage ''sha256:good'']
   \<and> requests (snd (resolveImageReference library_fixture
            (snd (resolveImageReference library_fixture cache_new ref_good ''ns'' False 0))
            ref_good ''ns'' False 60000000000))
        = [GetImage ''sha256:good'', GetImage ''sha256:good'']"
proof -
  let ?r1 = "resolveImageReference library_fixture cache_new ref_good ''ns'' False 0"
  have id: "refID ref_good \<noteq> []" by (simp add: ref_good_def)
  have first:
    "fst ?r1 = (Some \<lparr>ipaName = ref_good, ipaImage = Some image_good,
                      ipaIntegratedRegistry = True, ipaLocalRewrite = False\<rparr>, None)
     \<and> lookup (snd ?r1) ''sha256:good''
         = Some \<lparr>entryExpires = 60000000000, entryImage = image_good\<rparr>
     \<and> requests (snd ?r1) = [GetImage ''sha256:good'']"
    using resolveImageReference_digest_cached_or_fetched
            [OF id cache_new_facts(1), of 0 library_fixture "''ns''" False]
    by (simp add: cache_new_facts ref_good_facts client_good_image integrated_registry_def
          time_Minute_def)
  have conf: "configured (snd ?r1)"
    by (rule resolveImageReference_configured) (rule cache_new_facts(1))
  have second:
    "fst (resolveImageReference library_fixture (snd ?r1) ref_good ''ns'' False 59999999999) =
       (Some \<lparr>ipaName = ref_good, ipaImage = Some image_good, ipaIntegratedRegistry = False,
              ipaLocalRewrite = False\<rparr>, None)
     \<and> requests (snd (resolveImageReference library_fixture (snd ?r1) ref_good ''ns'' False
          59999999999)) = [GetImage ''sha256:good'']"
    using resolveImageReference_digest_cached_or_fetched
            [OF id conf, of 59999999999 library_fixture "''ns''" False] first
    by (simp add: ref_good_facts)
  have third:
    "requests (snd (resolveImageReference library_fixture (snd ?r1) ref_good ''ns'' False
          60000000000)) = [GetImage ''sha256:good'', GetImage ''sha256:good'']"
    using resolveImageReference_digest_cached_or_fetched
            [OF id conf, of 60000000000 library_fixture "''ns''" False] first
    by (simp add: ref_good_facts)
  from first second third show ?thesis by simp
qed

text \<open>
  Claim C4 does not hold of the code. At the input below, a reference into the
  integrated registry is resolved twice, at instant 0 (a miss: the image is fetched)
  and 30 seconds later (a hit). The miss returns \<open>IntegratedRegistry = true\<close>, the hit
  returns \<open>IntegratedRegistry = false\<close>: the two results differ in that field.
\<close>

theorem resolveImageReference_hit_differs_from_miss:
  "fst (resolveImageReference library_fixture cache_new ref_good ''ns'' False 0) =
     (Some \<lparr>ipaName = ref_good, ipaImage = Some image_good, ipaIntegratedRegistry = True,
            ipaLocalRewrite = False\<rparr>, None)
   \<and> fst (resolveImageReference library_fixture
            (snd (resolveImageReference library_fixture cache_new ref_good ''ns'' False 0))
            ref_good ''ns'' False 30000000000) =
     (Some \<lparr>ipaName = ref_good, ipaImage = Some image_good, ipaIntegratedRegistry = False,
            ipaLocalRewrite = False\<rparr>, None)
   \<and> fst (resolveImageReference library_fixture
            (snd (resolveImageReference library_fixture cache_new ref_good ''ns'' False 0))
            ref_good ''ns'' False 30000000000)
     \<noteq> fst (resolveImageReference library_fixture cache_new ref_good ''ns'' False 0)"
proof -
  have 1: "fst (resolveImageReference library_fixture cache_new ref_good ''ns'' False 0) =
     (Some \<lparr>ipaName = ref_good, ipaImage = Some image_good, ipaIntegratedRegistry = True,
            ipaLocalRewrite = False\<rparr>, None)"
    by code_simp
  have 2: "fst (resolveImageReference library_fixture
            (snd (resolveImageReference library_fixture cache_new ref_good ''ns'' False 0))
            ref_good ''ns'' False 30000000000) =
     (Some \<lparr>ipaName = ref_good, ipaImage = Some image_good, ipaIntegratedRegistry = False,
            ipaLocalRewrite = False\<rparr>, None)"
    by code_simp
  show ?thesis
    by (simp only: 1 2) simp
qed

text \<open>
  Claim C9. For a reference with a non-empty ID the tag plays no part in the
  resolution: with any other tag, default namespace and force flag, the resolver ends
  in the same state (same cache, same requests), returns the same error, and returns
  the same attributes but for the name, which is the reference as it was given. The
  only request the resolution can send is \<open>GetImage\<close> for the ID: no image stream tag
  is asked for.
\<close>

theorem resolveImageReference_digest_ignores_tag:
  assumes "refID ref \<noteq> []"
  shows "snd (resolveImageReference lib c (ref\<lparr>refTag := tag\<rparr>) ns force now)
           = snd (resolveImageReference lib c ref ns' force' now)
       \<and> snd (fst (resolveImageReference lib c (ref\<lparr>refTag := tag\<rparr>) ns force now))
           = snd (fst (resolveImageReference lib c ref ns' force' now))
       \<and> fst (fst (resolveImageReference lib c (ref\<lparr>refTag := tag\<rparr>) ns force now))
           = map_option (\<lambda>a. a\<lparr>ipaName := ref\<lparr>refTag := tag\<rparr>\<rparr>)
               (fst (fst (resolveImageReference lib c ref ns' force' now)))
       \<and> (requests (snd (resolveImageReference lib c (ref\<lparr>refTag := tag\<rparr>) ns force now))
             = requests c
          \<or> requests (snd (resolveImageReference lib c (ref\<lparr>refTag := tag\<rparr>) ns force now))
             = requests c @ [GetImage (refID ref)])"
  using assms
  by (simp add: resolveImageReference_def Let_def request_def
        split: prod.splits option.splits sum.splits)

theorem resolveImageReference_digest_ignores_tag_witness:
  "fst (resolveImageReference library_fixture cache_new (ref_good\<lparr>refTag := ''nosuchtag''\<rparr>)
          ''other'' True 0) =
     (Some \<lparr>ipaName = ref_good\<lparr>refTag := ''nosuchtag''\<rparr>, ipaImage = Some image_good,
            ipaIntegratedRegistry = True, ipaLocalRewrite = False\<rparr>, None)
   \<and> requests (snd (resolveImageReference library_fixture cache_new
          (ref_good\<lparr>refTag := ''nosuchtag''\<rparr>) ''other'' True 0)) = [GetImage ''sha256:good'']"
proof -
  have id: "refID ref_good \<noteq> []" by (simp add: ref_good_def)
  have stale: "\<forall>e. lookup cache_new (refID ref_good) = Some e \<longrightarrow> \<not> 0 < entryExpires e"
    by (simp add: cache_new_facts)
  have got: "Images_Get (imageClient cache_new) (refID ref_good) = Inr image_good"
    by (simp add: cache_new_facts ref_good_facts client_good_image)
  have pos: "0 < lruSize (cache cache_new)"
    by (simp add: cache_new_facts)
  note plain = resolveImageReference_miss_fetched
     [OF id stale got pos, of library_fixture "''ns''" False]
  let ?r = "resolveImageReference library_fixture cache_new ref_good ''ns'' False 0"
  let ?r' = "resolveImageReference library_fixture cache_new
      (ref_good\<lparr>refTag := ''nosuchtag''\<rparr>) ''other'' True 0"
  from resolveImageReference_digest_ignores_tag
     [OF id, of library_fixture cache_new "''nosuchtag''" "''other''" True 0 "''ns''" False]
  have s: "snd ?r' = snd ?r"
    and e: "snd (fst ?r') = snd (fst ?r)"
    and a: "fst (fst ?r') = map_option (\<lambda>a. a\<lparr>ipaName := ref_good\<lparr>refTag := ''nosuchtag''\<rparr>\<rparr>)
        (fst (fst ?r))"
    by blast+
  have "fst ?r' = (fst (fst ?r'), snd (fst ?r'))"
    by simp
  also have "\<dots> = (Some \<lparr>ipaName = ref_good\<lparr>refTag := ''nosuchtag''\<rparr>,
      ipaImage = Some image_good, ipaIntegratedRegistry = True, ipaLocalRewrite = False\<rparr>, None)"
    by (simp only: e a plain(1)) (simp add: cache_new_facts ref_good_facts integrated_registry_def)
  finally have 1: "fst ?r' = (Some \<lparr>ipaName = ref_good\<lparr>refTag := ''nosuchtag''\<rparr>,
      ipaImage = Some image_good, ipaIntegratedRegistry = True, ipaLocalRewrite = False\<rparr>, None)" .
  have 2: "requests (snd ?r') = [GetImage ''sha256:good'']"
    by (simp only: s plain(3)) (simp add: cache_new_facts ref_good_facts)
  from 1 2 show ?thesis by simp
qed

subsection \<open>Claims on \<open>RewriteImagePullSpec\<close>\<close>

lemma RewriteImagePullSpec_loop_eq:
  "RewriteImagePullSpec_loop rewrites config rules attr gr hasMatchingRule =
     (if list_ex (ruleRewrites rewrites attr gr) rules then True
      else if hasMatchingRule \<or> list_ex (ruleCovers gr) rules then False
      else rewrites (ResolveImages config))"
  by (induction rules arbitrary: hasMatchingRule)
     (auto simp: ruleRewrites_def ruleCovers_def)

text \<open>
  Claim C5 as stated fails: on the update of a job that a rule with \<open>LocalNames\<close>
  covers, and a reference that was rewritten locally, the rule says "rewrite", yet
  \<open>RewriteImagePullSpec\<close> answers false: the restriction on updates comes before the
  rules, not after them.
\<close>

theorem RewriteImagePullSpec_rules_do_not_come_first:
  "RewriteImagePullSpec RewriteImagePullSpec_policy config_jobs_local attrs_local_rewrite True jobs
     = False
   \<and> RewriteImagePullSpec_rules_first RewriteImagePullSpec_policy config_jobs_local
       attrs_local_rewrite True jobs = True"
  by (simp add: RewriteImagePullSpec_def RewriteImagePullSpec_rules_first_def
        config_jobs_local_def attrs_local_rewrite_def jobs_def skipImageRewriteOnUpdate_def
        ruleCovers_def ruleRewrites_def resolutionRuleCoversResource_def)

text \<open>
  Claim C5, amended. \<open>RewriteImagePullSpec\<close> decides in this order: first, on an update
  of a resource whose spec is immutable on update (jobs, builds, stateful sets) it
  answers false; next, when a resolution rule covers the resource, it answers true
  exactly when one of the covering rules asks for local names and the reference was
  rewritten locally, or has a policy that rewrites; only when no rule covers the
  resource, the global policy decides.
\<close>

theorem RewriteImagePullSpec_precedence:
  "RewriteImagePullSpec rewrites config attr isUpdate gr =
     (if isUpdate \<and> gr \<in> set skipImageRewriteOnUpdate then False
      else if list_ex (ruleCovers gr) (ResolutionRules config)
      then list_ex (ruleRewrites rewrites attr gr) (ResolutionRules config)
      else rewrites (ResolveImages config))"
proof -
  have "list_ex (ruleRewrites rewrites attr gr) rules \<Longrightarrow> list_ex (ruleCovers gr) rules"
    for rules
    by (auto simp: list_ex_iff ruleRewrites_def ruleCovers_def)
  then show ?thesis
    by (auto simp: RewriteImagePullSpec_def RewriteImagePullSpec_loop_eq)
qed

theorem RewriteImagePullSpec_precedence_witness:
  "RewriteImagePullSpec RewriteImagePullSpec_policy config_jobs_local attrs_local_rewrite True jobs
     = False
   \<and> RewriteImagePullSpec RewriteImagePullSpec_policy config_jobs_local attrs_local_rewrite False
       jobs = True
   \<and> RewriteImagePullSpec RewriteImagePullSpec_policy
       (config_jobs_local\<lparr>ResolveImages := AttemptRewrite\<rparr>)
       (attrs_local_rewrite\<lparr>ipaLocalRewrite := False\<rparr>) False jobs = False
   \<and> RewriteImagePullSpec RewriteImagePullSpec_policy
       (config_jobs_local\<lparr>ResolveImages := AttemptRewrite\<rparr>)
       (attrs_local_rewrite\<lparr>ipaLocalRewrite := False\<rparr>) False
       \<lparr>grGroup = '''', grResource = ''pods''\<rparr> = True"
  using RewriteImagePullSpec_precedence
          [of RewriteImagePullSpec_policy config_jobs_local attrs_local_rewrite True jobs]
        RewriteImagePullSpec_precedence
          [of RewriteImagePullSpec_policy config_jobs_local attrs_local_rewrite False jobs]
        RewriteImagePullSpec_precedence
          [of RewriteImagePullSpec_policy "config_jobs_local\<lparr>ResolveImages := AttemptRewrite\<rparr>"
              "attrs_local_rewrite\<lparr>ipaLocalRewrite := False\<rparr>" False jobs]
        RewriteImagePullSpec_precedence
          [of RewriteImagePullSpec_policy "config_jobs_local\<lparr>ResolveImages := AttemptRewrite\<rparr>"
              "attrs_local_rewrite\<lparr>ipaLocalRewrite := False\<rparr>" False
              "\<lparr>grGroup = '''', grResource = ''pods''\<rparr>"]
  by (simp add: config_jobs_local_def attrs_local_rewrite_def jobs_def
        skipImageRewriteOnUpdate_def ruleCovers_def ruleRewrites_def
        resolutionRuleCoversResource_def RewriteImagePullSpec_policy_def AttemptRewrite_def
        RequiredRewrite_def DoNotAttempt_def)

subsection \<open>Claims on \<open>resolveImageStreamTag\<close>\<close>

lemma resolveImageStreamTag_not_found:
  assumes "ImageStreamTags_Get (imageClient c) namespace (JoinImageStreamTag name tag) = Inl err"
    and "isImageStreamTagNotFound (Some err)"
    and "ImageStreams_Get (imageClient c) namespace name = Inr stream"
  shows "resolveImageStreamTag lib c namespace name tag partial force now =
     (let attrs = \<lparr>ipaName = emptyReference, ipaImage = None,
                    ipaIntegratedRegistry = \<not> partial, ipaLocalRewrite = False\<rparr>;
          c2 = request (GetImageStream namespace name)
                 (request (GetImageStreamTag namespace (JoinImageStreamTag name tag)) c)
      in if (force \<or> streamLookupPolicyLocal stream) \<and> streamDockerImageRepository stream \<noteq> []
         then (case reference_Parse lib (streamDockerImageRepository stream) of
                 Inr ref \<Rightarrow> ((Some (attrs\<lparr>ipaName := ref\<lparr>refTag := tag\<rparr>,
                                           ipaLocalRewrite := True\<rparr>), None), c2)
               | Inl err' \<Rightarrow> ((Some attrs, Some err), c2))
         else ((Some attrs, Some err), c2))"
  using assms
  by (cases partial)
     (simp_all add: resolveImageStreamTag_def Let_def request_def split: sum.splits)

text \<open>
  Claim C6 as stated fails in its second half: the stream \<open>ext\<close> is not configured for
  local resolution and its tag is absent, yet with \<open>forceResolveLocalNames\<close> the
  resolution does not fail: it returns the synthesized reference.
\<close>

theorem resolveImageStreamTag_forced_does_not_fail:
  "ImageStreamTags_Get client_good ''ns'' (JoinImageStreamTag ''ext'' ''v1'')
     = Inl error_tag_not_found
   \<and> isImageStreamTagNotFound (Some error_tag_not_found)
   \<and> ImageStreams_Get client_good ''ns'' ''ext''
     = Inr \<lparr>streamLookupPolicyLocal = False,
            streamDockerImageRepository = ''integrated.registry/ns/ext''\<rparr>
   \<and> fst (resolveImageStreamTag library_fixture cache_new ''ns'' ''ext'' ''v1'' True True 0)
     = (Some \<lparr>ipaName = \<lparr>refRegistry = ''integrated.registry'', refNamespace = ''ns'',
                          refName = ''ext'', refTag = ''v1'', refID = ''''\<rparr>,
              ipaImage = None, ipaIntegratedRegistry = False, ipaLocalRewrite = True\<rparr>, None)"
proof -
  have 1: "ImageStreamTags_Get client_good ''ns'' (JoinImageStreamTag ''ext'' ''v1'')
      = Inl error_tag_not_found"
    by (simp add: client_good_def)
  have 2: "isImageStreamTagNotFound (Some error_tag_not_found)"
    by (simp add: isImageStreamTagNotFound_def IsNotFound_def error_tag_not_found_def)
  have 3: "ImageStreams_Get client_good ''ns'' ''ext''
      = Inr \<lparr>streamLookupPolicyLocal = False,
             streamDockerImageRepository = ''integrated.registry/ns/ext''\<rparr>"
    by (simp add: client_good_def)
  have 4: "fst (resolveImageStreamTag library_fixture cache_new ''ns'' ''ext'' ''v1'' True True 0)
     = (Some \<lparr>ipaName = \<lparr>refRegistry = ''integrated.registry'', refNamespace = ''ns'',
                          refName = ''ext'', refTag = ''v1'', refID = ''''\<rparr>,
              ipaImage = None, ipaIntegratedRegistry = False, ipaLocalRewrite = True\<rparr>, None)"
    by code_simp
  from 1 2 3 4 show ?thesis by simp
qed

text \<open>
  Claim C6, amended. Let the request for the image stream tag fail with "tag not
  found" (the stream exists) and let the request for the stream succeed. When the
  stream is configured for local resolution or resolution is forced, and its
  repository is not empty and parses as an image reference, \<open>resolveImageStreamTag\<close>
  returns no error and the attributes name the repository with the requested tag, with
  \<open>LocalRewrite\<close> true and no image. When the stream is not configured for local
  resolution and resolution is not forced, it returns the "tag not found" error, and
  the attributes name no reference. In both cases the cache is left as it was.
\<close>

theorem resolveImageStreamTag_tag_not_found_fallback:
  assumes "ImageStreamTags_Get (imageClient c) namespace (JoinImageStreamTag name tag) = Inl err"
    and "isImageStreamTagNotFound (Some err)"
    and "ImageStreams_Get (imageClient c) namespace name = Inr stream"
  shows
    "((forceResolveLocalNames \<or> streamLookupPolicyLocal stream)
        \<and> streamDockerImageRepository stream \<noteq> []
        \<and> reference_Parse lib (streamDockerImageRepository stream) = Inr repository
      \<longrightarrow> fst (resolveImageStreamTag lib c namespace name tag partial forceResolveLocalNames now)
          = (Some \<lparr>ipaName = repository\<lparr>refTag := tag\<rparr>, ipaImage = None,
                   ipaIntegratedRegistry = \<not> partial, ipaLocalRewrite = True\<rparr>, None))
     \<and> (\<not> forceResolveLocalNames \<and> \<not> streamLookupPolicyLocal stream
      \<longrightarrow> fst (resolveImageStreamTag lib c namespace name tag partial forceResolveLocalNames now)
          = (Some \<lparr>ipaName = emptyReference, ipaImage = None,
                   ipaIntegratedRegistry = \<not> partial, ipaLocalRewrite = False\<rparr>, Some err))
     \<and> cache (snd (resolveImageStreamTag lib c namespace name tag partial forceResolveLocalNames
          now)) = cache c"
  by (simp add: resolveImageStreamTag_not_found [OF assms] Let_def request_def
        split: sum.splits)

theorem resolveImageStreamTag_tag_not_found_fallback_witness:
  "fst (resolveImageStreamTag library_fixture cache_new ''ns'' ''app'' ''v1'' False False 0)
     = (Some \<lparr>ipaName = \<lparr>refRegistry = ''integrated.registry'', refNamespace = ''ns'',
                          refName = ''app'', refTag = ''v1'', refID = ''''\<rparr>,
              ipaImage = None, ipaIntegratedRegistry = True, ipaLocalRewrite = True\<rparr>, None)
   \<and> fst (resolveImageStreamTag library_fixture cache_new ''ns'' ''ext'' ''v1'' False False 0)
     = (Some \<lparr>ipaName = emptyReference, ipaImage = None, ipaIntegratedRegistry = True,
              ipaLocalRewrite = False\<rparr>, Some error_tag_not_found)"
proof -
  have nf: "isImageStreamTagNotFound (Some error_tag_not_found)"
    by (simp add: isImageStreamTagNotFound_def IsNotFound_def error_tag_not_found_def)
  have t: "ImageStreamTags_Get (imageClient cache_new) ''ns'' (JoinImageStreamTag n ''v1'')
      = Inl error_tag_not_found" for n
    by (simp add: cache_new_def client_good_def)
  have app: "ImageStreams_Get (imageClient cache_new) ''ns'' ''app''
      = Inr \<lparr>streamLookupPolicyLocal = True,
             streamDockerImageRepository = ''integrated.registry/ns/app''\<rparr>"
    by (simp add: cache_new_def client_good_def)
  have ext: "ImageStreams_Get (imageClient cache_new) ''ns'' ''ext''
      = Inr \<lparr>streamLookupPolicyLocal = False,
             streamDockerImageRepository = ''integrated.registry/ns/ext''\<rparr>"
    by (simp add: cache_new_def client_good_def)
  have parse: "reference_Parse library_fixture ''integrated.registry/ns/app''
      = Inr \<lparr>refRegistry = ''integrated.registry'', refNamespace = ''ns'', refName = ''app'',
             refTag = '''', refID = ''''\<rparr>"
    by (simp add: library_fixture_def)
  from resolveImageStreamTag_tag_not_found_fallback
         [OF t nf app, of False library_fixture _ False 0] parse
  have 1: "fst (resolveImageStreamTag library_fixture cache_new ''ns'' ''app'' ''v1'' False False 0)
     = (Some \<lparr>ipaName = \<lparr>refRegistry = ''integrated.registry'', refNamespace = ''ns'',
                          refName = ''app'', refTag = ''v1'', refID = ''''\<rparr>,
              ipaImage = None, ipaIntegratedRegistry = True, ipaLocalRewrite = True\<rparr>, None)"
    by simp
  from resolveImageStreamTag_tag_not_found_fallback
         [OF t nf ext, of False library_fixture _ False 0]
  have 2: "fst (resolveImageStreamTag library_fixture cache_new ''ns'' ''ext'' ''v1'' False False 0)
     = (Some \<lparr>ipaName = emptyReference, ipaImage = None, ipaIntegratedRegistry = True,
              ipaLocalRewrite = False\<rparr>, Some error_tag_not_found)"
    by simp
  from 1 2 show ?thesis by simp
qed

subsection \<open>Claims on \<open>admit\<close>\<close>

text \<open>
  Claim C10. For every operation other than Create and Update, and for every
  operation on a subresource, \<open>admit\<close> returns no error and the object as it was,
  whatever the plugin's configuration, accepter, mutators and \<open>accept\<close> are and whether
  mutation is allowed or not.
\<close>

theorem admit_ignores_other_operations_and_subresources:
  "(attrOperation attr \<noteq> Create \<and> attrOperation attr \<noteq> Update) \<or> attrSubresource attr \<noteq> []
     \<Longrightarrow> admit a attr mutationAllowed = (None, attrObject attr)"
  by (auto simp: admit_def)

theorem admit_ignores_other_operations_and_subresources_witness:
  "admit plugin_rewrite (attrs_latest\<lparr>attrOperation := Delete\<rparr>) True = (None, ref_latest)
   \<and> admit plugin_rewrite (attrs_latest\<lparr>attrOperation := Update, attrSubresource := ''status''\<rparr>)
       True = (None, ref_latest)
   \<and> admit plugin_rewrite attrs_latest True
       = (None, ref_latest\<lparr>orName := ''myregistry.com/mysql/mysql@sha256:a3ed''\<rparr>)"
proof -
  have 1: "admit plugin_rewrite (attrs_latest\<lparr>attrOperation := Delete\<rparr>) True
      = (None, attrObject (attrs_latest\<lparr>attrOperation := Delete\<rparr>))"
    by (rule admit_ignores_other_operations_and_subresources)
       (simp add: attrs_latest_def Delete_def Create_def Update_def)
  have 2: "admit plugin_rewrite
        (attrs_latest\<lparr>attrOperation := Update, attrSubresource := ''status''\<rparr>) True
      = (None, attrObject (attrs_latest\<lparr>attrOperation := Update, attrSubresource := ''status''\<rparr>))"
    by (rule admit_ignores_other_operations_and_subresources) simp
  have 3: "admit plugin_rewrite attrs_latest True
      = (None, ref_latest\<lparr>orName := ''myregistry.com/mysql/mysql@sha256:a3ed''\<rparr>)"
    by (simp add: admit_def plugin_rewrite_def attrs_latest_def direct_mutator_def
          rewrite_to_digest_def)
  from 1 2 3 show ?thesis
    by (simp add: attrs_latest_def)
qed

subsection \<open>Lemmas on \<open>mutationPreventer\<close>, the mutator of pods and \<open>accept\<close>\<close>


text \<open>
  The callback of \<open>mutationPreventer\<close> reports a change and leaves the reference as the
  wrapped callback left it. That an object keeps its images is the mutator's doing: the
  mutator of pods writes a name back only when the callback returned no error.
\<close>

lemma preventMutation_changed:
  "fn ref = (None, ref') \<Longrightarrow> ref' \<noteq> ref \<Longrightarrow>
     preventMutation fn ref =
       (Some (PlainError ''this image is prohibited by policy (changed after admission)''), ref')"
  by (simp add: preventMutation_def)

lemma preventMutation_unchanged:
  "fn ref = (None, ref) \<Longrightarrow> preventMutation fn ref = (None, ref)"
  by (simp add: preventMutation_def)

lemma preventMutation_error:
  "fn ref = (Some err, ref') \<Longrightarrow>
     preventMutation fn ref =
       (Some (PlainError (''error in image policy validation: '' @ Error err)), ref')"
  by (simp add: preventMutation_def)












subsection \<open>Claims on \<open>Validate\<close> of the plugin\<close>



end
